theory Spec2Isabelle
  imports Complex_Main
begin

section \<open>Numbers of the engine\<close>

text \<open>
  Every quantity of the cost engine is a JavaScript \<open>number\<close>. The model keeps the
  special values of IEEE arithmetic and replaces rounding by exact real arithmetic:
  a number is a finite real, one of the two infinities, or NaN. Zero carries no sign
  (a zero divisor behaves as \<open>+0\<close>), and no finite result overflows.
  Numbers read from the configuration and from a block are finite, so those fields
  are plain reals; everything the engine computes is a \<open>jsnum\<close>.
\<close>

datatype jsnum = Num real | PosInf | NegInf | NaN

fun js_neg :: "jsnum \<Rightarrow> jsnum" where
  "js_neg (Num x) = Num (- x)"
| "js_neg PosInf = NegInf"
| "js_neg NegInf = PosInf"
| "js_neg NaN = NaN"

fun js_add :: "jsnum \<Rightarrow> jsnum \<Rightarrow> jsnum" where
  "js_add (Num x) (Num y) = Num (x + y)"
| "js_add (Num x) PosInf = PosInf"
| "js_add (Num x) NegInf = NegInf"
| "js_add PosInf (Num y) = PosInf"
| "js_add PosInf PosInf = PosInf"
| "js_add PosInf NegInf = NaN"
| "js_add NegInf (Num y) = NegInf"
| "js_add NegInf PosInf = NaN"
| "js_add NegInf NegInf = NegInf"
| "js_add NaN b = NaN"
| "js_add a NaN = NaN"

definition js_sub :: "jsnum \<Rightarrow> jsnum \<Rightarrow> jsnum" where
  "js_sub a b = js_add a (js_neg b)"

definition signed_inf :: "bool \<Rightarrow> jsnum" where
  "signed_inf negative = (if negative then NegInf else PosInf)"

fun js_mul :: "jsnum \<Rightarrow> jsnum \<Rightarrow> jsnum" where
  "js_mul (Num x) (Num y) = Num (x * y)"
| "js_mul (Num x) PosInf = (if x = 0 then NaN else signed_inf (x < 0))"
| "js_mul (Num x) NegInf = (if x = 0 then NaN else signed_inf (0 < x))"
| "js_mul PosInf (Num y) = (if y = 0 then NaN else signed_inf (y < 0))"
| "js_mul NegInf (Num y) = (if y = 0 then NaN else signed_inf (0 < y))"
| "js_mul PosInf PosInf = PosInf"
| "js_mul PosInf NegInf = NegInf"
| "js_mul NegInf PosInf = NegInf"
| "js_mul NegInf NegInf = PosInf"
| "js_mul NaN b = NaN"
| "js_mul a NaN = NaN"

fun js_div :: "jsnum \<Rightarrow> jsnum \<Rightarrow> jsnum" where
  "js_div (Num x) (Num y) =
     (if y \<noteq> 0 then Num (x / y) else if x = 0 then NaN else signed_inf (x < 0))"
| "js_div (Num x) PosInf = Num 0"
| "js_div (Num x) NegInf = Num 0"
| "js_div PosInf (Num y) = signed_inf (y < 0)"
| "js_div NegInf (Num y) = signed_inf (0 \<le> y)"
| "js_div PosInf PosInf = NaN"
| "js_div PosInf NegInf = NaN"
| "js_div NegInf PosInf = NaN"
| "js_div NegInf NegInf = NaN"
| "js_div NaN b = NaN"
| "js_div a NaN = NaN"

fun js_abs :: "jsnum \<Rightarrow> jsnum" where
  "js_abs (Num x) = Num \<bar>x\<bar>"
| "js_abs PosInf = PosInf"
| "js_abs NegInf = PosInf"
| "js_abs NaN = NaN"

text \<open>The comparison \<open>a < b\<close>; it is false as soon as one side is NaN.\<close>

fun js_lt :: "jsnum \<Rightarrow> jsnum \<Rightarrow> bool" where
  "js_lt (Num x) (Num y) = (x < y)"
| "js_lt (Num x) PosInf = True"
| "js_lt NegInf (Num y) = True"
| "js_lt NegInf PosInf = True"
| "js_lt a b = False"

fun js_le :: "jsnum \<Rightarrow> jsnum \<Rightarrow> bool" where
  "js_le (Num x) (Num y) = (x \<le> y)"
| "js_le NaN b = False"
| "js_le a NaN = False"
| "js_le a PosInf = True"
| "js_le NegInf b = True"
| "js_le a b = False"

definition js_gt :: "jsnum \<Rightarrow> jsnum \<Rightarrow> bool" where
  "js_gt a b = js_lt b a"

definition js_ge :: "jsnum \<Rightarrow> jsnum \<Rightarrow> bool" where
  "js_ge a b = js_le b a"

text \<open>Truthiness of a number: \<open>0\<close> and NaN are falsy. \<open>a || d\<close> on numbers.\<close>

fun js_truthy :: "jsnum \<Rightarrow> bool" where
  "js_truthy (Num x) = (x \<noteq> 0)"
| "js_truthy NaN = False"
| "js_truthy a = True"

definition js_or :: "jsnum \<Rightarrow> jsnum \<Rightarrow> jsnum" where
  "js_or a d = (if js_truthy a then a else d)"

fun is_finite :: "jsnum \<Rightarrow> bool" where
  "is_finite (Num x) = True"
| "is_finite a = False"

definition is_integer :: "real \<Rightarrow> bool" where
  "is_integer x = (real_of_int \<lfloor>x\<rfloor> = x)"

definition is_odd_integer :: "real \<Rightarrow> bool" where
  "is_odd_integer x = (is_integer x \<and> odd \<lfloor>x\<rfloor>)"

text \<open>
  \<open>Math.pow(base, exponent)\<close>, case by case as the language defines it: a zero exponent
  gives 1 whatever the base, a negative base with a fractional exponent gives NaN.
\<close>

fun js_pow :: "jsnum \<Rightarrow> jsnum \<Rightarrow> jsnum" where
  "js_pow b NaN = NaN"
| "js_pow NaN (Num e) = (if e = 0 then Num 1 else NaN)"
| "js_pow NaN e = NaN"
| "js_pow PosInf (Num e) = (if e = 0 then Num 1 else if 0 < e then PosInf else Num 0)"
| "js_pow PosInf PosInf = PosInf"
| "js_pow PosInf NegInf = Num 0"
| "js_pow NegInf (Num e) =
     (if e = 0 then Num 1
      else if 0 < e then (if is_odd_integer e then NegInf else PosInf)
      else Num 0)"
| "js_pow NegInf PosInf = PosInf"
| "js_pow NegInf NegInf = Num 0"
| "js_pow (Num b) PosInf =
     (if 1 < \<bar>b\<bar> then PosInf else if \<bar>b\<bar> = 1 then NaN else Num 0)"
| "js_pow (Num b) NegInf =
     (if 1 < \<bar>b\<bar> then Num 0 else if \<bar>b\<bar> = 1 then NaN else PosInf)"
| "js_pow (Num b) (Num e) =
     (if e = 0 then Num 1
      else if b = 0 then (if 0 < e then Num 0 else PosInf)
      else if 0 < b then Num (b powr e)
      else if is_integer e then Num (b powi \<lfloor>e\<rfloor>)
      else NaN)"

section \<open>Strings\<close>

text \<open>
  A string is a list of characters below U+0100. \<open>toLowerCase\<close> maps the capital
  letters of that range (A to Z, and U+00C0 to U+00DE without the multiplication sign)
  to their small forms.
\<close>

definition lower_char :: "char \<Rightarrow> char" where
  "lower_char c =
     (let n = (of_char c :: nat)
      in if (65 \<le> n \<and> n \<le> 90) \<or> (192 \<le> n \<and> n \<le> 222 \<and> n \<noteq> 215)
         then char_of (n + 32) else c)"

definition toLowerCase :: "string \<Rightarrow> string" where
  "toLowerCase s = map lower_char s"

fun startsWith :: "string \<Rightarrow> string \<Rightarrow> bool" where
  "startsWith s [] = True"
| "startsWith [] (p # ps) = False"
| "startsWith (c # cs) (p # ps) = (c = p \<and> startsWith cs ps)"

text \<open>\<open>s.includes(sub)\<close>: \<open>sub\<close> occurs somewhere in \<open>s\<close>.\<close>

fun includes_str :: "string \<Rightarrow> string \<Rightarrow> bool" where
  "includes_str [] sub = (sub = [])"
| "includes_str (c # cs) sub = (startsWith (c # cs) sub \<or> includes_str cs sub)"

section \<open>Configuration\<close>

text \<open>
  The configuration snapshot, with the fields the engine reads. Descriptive fields
  (names, vendors, approvals, free text) are never read by the engine and are left out.
\<close>

record FXRateTable =
  CAD :: real
  EUR :: real
  AUD :: real
  GBP :: real

record FXRates =
  rates :: FXRateTable

record PenetrationRate =
  metersPerHour :: real
  rockType :: string

record Availability =
  planned :: real
  mechanical :: real
  operational :: real

record LifeOfMine =
  years :: int
  startYear :: int

record ProjectParameters =
  lifeOfMine :: LifeOfMine
  penetrationRate :: "PenetrationRate list"
  availability :: Availability

text \<open>\<open>powerKW\<close> is the optional \<open>specs.powerKW\<close>; \<open>usefulLifeYears\<close> is \<open>usefulLife.years\<close>.\<close>

record EquipmentItem =
  itemCode :: string
  baseCost :: real
  currency :: string
  powerKW :: "real option"
  usefulLifeYears :: real
  salvageValue :: real

record EquipmentCatalog =
  items :: "EquipmentItem list"

record LaborRole =
  roleCode :: string
  annualRate :: real
  currency :: string
  utilizationFactor :: real
  burdenRate :: real

record LaborCatalog =
  roles :: "LaborRole list"

record MarginRule =
  costCategory :: string
  marginPercent :: real
  validFrom :: string
  validTo :: "string option"

record RiskPremium =
  attribute :: string
  condition :: string
  premiumPercent :: real

record CalculatorSettings =
  contingencyPercent :: real
  projectCurrency :: string

record AggregatorSettings =
  discountRate :: real

text \<open>
  \<open>marginRules\<close> is \<open>marginRules.rules\<close> and \<open>riskPremiums\<close> is
  \<open>riskPremiums.premiums\<close>: each wrapper object holds that one list.
\<close>

record CostModelConfig =
  version :: string
  fxRates :: FXRates
  projectParameters :: ProjectParameters
  equipmentCatalog :: EquipmentCatalog
  laborCatalog :: LaborCatalog
  marginRules :: "MarginRule list"
  riskPremiums :: "RiskPremium list"
  calculatorSettings :: CalculatorSettings
  aggregatorSettings :: AggregatorSettings

section \<open>RatesCalculator\<close>

text \<open>
  \<open>rates[k]\<close>: the table has the four keys CAD, EUR, AUD and GBP; any other key
  (USD among them) reads \<open>undefined\<close>.
\<close>

definition rate_lookup :: "FXRateTable \<Rightarrow> string \<Rightarrow> real option" where
  "rate_lookup t k =
     (if k = ''CAD'' then Some (CAD t)
      else if k = ''EUR'' then Some (EUR t)
      else if k = ''AUD'' then Some (AUD t)
      else if k = ''GBP'' then Some (GBP t)
      else None)"

text \<open>\<open>rates[k] || 1\<close>: a missing or zero rate counts as 1.\<close>

definition rate_or_one :: "FXRateTable \<Rightarrow> string \<Rightarrow> jsnum" where
  "rate_or_one t k =
     (case rate_lookup t k of None \<Rightarrow> Num 1 | Some r \<Rightarrow> js_or (Num r) (Num 1))"

definition getFXRate :: "CostModelConfig \<Rightarrow> string \<Rightarrow> string \<Rightarrow> jsnum" where
  "getFXRate cfg from to =
     (if from = to then Num 1
      else let t = rates (fxRates cfg) in
        if from = ''USD'' then rate_or_one t to
        else if to = ''USD'' then js_div (Num 1) (rate_or_one t from)
        else let fromToUSD = js_div (Num 1) (rate_or_one t from);
                 usdToTarget = rate_or_one t to
             in js_mul fromToUSD usdToTarget)"

text \<open>The currencies of the rate table, with its base currency.\<close>

definition configured_currencies :: "string list" where
  "configured_currencies = [''USD'', ''CAD'', ''EUR'', ''AUD'', ''GBP'']"

section \<open>Blocks\<close>

text \<open>The characteristics of a block that the engine reads.\<close>

record BlockCharacteristics =
  blockId :: string
  depth :: real
  tonnage :: real
  grade :: real
  rockType :: string
  hardness :: real
  abrasivity :: real
  strikeLength :: real
  width :: real

section \<open>PoliciesEngine\<close>

text \<open>
  A \<open>Date\<close> object is its time value in milliseconds, or invalid (time value NaN).
  Comparing two dates compares the time values, so a comparison with an invalid date
  is false. Parsing a date string, \<open>new Date(s)\<close>, is a function of the runtime and a
  parameter \<open>parseDate\<close> of the model; the evaluation date, by default the clock
  reading \<open>new Date()\<close>, is passed in.
\<close>

datatype jsdate = Date int | InvalidDate

fun date_ge :: "jsdate \<Rightarrow> jsdate \<Rightarrow> bool" where
  "date_ge (Date a) (Date b) = (a \<ge> b)"
| "date_ge a b = False"

fun date_le :: "jsdate \<Rightarrow> jsdate \<Rightarrow> bool" where
  "date_le (Date a) (Date b) = (a \<le> b)"
| "date_le a b = False"

text \<open>The predicate given to \<open>find\<close>; an absent or empty \<open>validTo\<close> is falsy.\<close>

definition margin_rule_matches ::
  "(string \<Rightarrow> jsdate) \<Rightarrow> string \<Rightarrow> jsdate \<Rightarrow> MarginRule \<Rightarrow> bool" where
  "margin_rule_matches parseDate category date r =
     (let vFrom = parseDate (validFrom r);
          vTo = (case validTo r of
                   None \<Rightarrow> parseDate ''2099-12-31''
                 | Some s \<Rightarrow> if s \<noteq> [] then parseDate s else parseDate ''2099-12-31'')
      in costCategory r = category \<and> date_ge date vFrom \<and> date_le date vTo)"

definition getMargin ::
  "(string \<Rightarrow> jsdate) \<Rightarrow> CostModelConfig \<Rightarrow> string \<Rightarrow> jsdate \<Rightarrow> jsnum" where
  "getMargin parseDate cfg category date =
     (case find (margin_rule_matches parseDate category date) (marginRules cfg) of
        None \<Rightarrow> Num 0
      | Some rule \<Rightarrow> js_or (Num (marginPercent rule)) (Num 0))"

subsection \<open>The condition grammar\<close>

definition isOperatorChar :: "char \<Rightarrow> bool" where
  "isOperatorChar c = (c \<in> set ''><=!'')"

definition isLineTerminator :: "char \<Rightarrow> bool" where
  "isLineTerminator c = (of_char c = (10::nat) \<or> of_char c = (13::nat))"

text \<open>White space of \<open>\s\<close>, of \<open>trim\<close> and of number parsing: TAB, LF, VT, FF, CR, SP, NBSP.\<close>

definition isWhiteSpace :: "char \<Rightarrow> bool" where
  "isWhiteSpace c = (of_char c \<in> {9::nat, 10, 11, 12, 13, 32, 160})"

definition trim :: "string \<Rightarrow> string" where
  "trim s = rev (dropWhile isWhiteSpace (rev (dropWhile isWhiteSpace s)))"

text \<open>
  \<open>condition.match(/([><=!]+)\s*(.+)/)\<close>: the leftmost match, each quantifier greedy and
  giving back one character at a time. The result is the pair of the two groups.
\<close>

definition dot_plus :: "string \<Rightarrow> string option" where
  "dot_plus s =
     (let v = takeWhile (\<lambda>c. \<not> isLineTerminator c) s in if v = [] then None else Some v)"

fun spaces_then_value :: "nat \<Rightarrow> string \<Rightarrow> string option" where
  "spaces_then_value 0 s = dot_plus s"
| "spaces_then_value (Suc m) s =
     (case dot_plus (drop (Suc m) s) of
        Some v \<Rightarrow> Some v
      | None \<Rightarrow> spaces_then_value m s)"

definition after_operator :: "string \<Rightarrow> string option" where
  "after_operator s = spaces_then_value (length (takeWhile isWhiteSpace s)) s"

fun operator_then_value :: "nat \<Rightarrow> string \<Rightarrow> (string \<times> string) option" where
  "operator_then_value 0 s = None"
| "operator_then_value (Suc j) s =
     (case after_operator (drop (Suc j) s) of
        Some v \<Rightarrow> Some (take (Suc j) s, v)
      | None \<Rightarrow> operator_then_value j s)"

definition match_here :: "string \<Rightarrow> (string \<times> string) option" where
  "match_here s = operator_then_value (length (takeWhile isOperatorChar s)) s"

fun match_condition :: "string \<Rightarrow> (string \<times> string) option" where
  "match_condition [] = None"
| "match_condition (c # cs) =
     (case match_here (c # cs) of
        Some m \<Rightarrow> Some m
      | None \<Rightarrow> match_condition cs)"

subsection \<open>Numeric literals\<close>

definition isDigit :: "char \<Rightarrow> bool" where
  "isDigit c = (48 \<le> (of_char c :: nat) \<and> (of_char c :: nat) \<le> 57)"

definition digits_value :: "string \<Rightarrow> nat" where
  "digits_value ds = foldl (\<lambda>a c. 10 * a + (of_char c - 48)) 0 ds"

text \<open>
  The exponent part \<open>e\<close> or \<open>E\<close>, an optional sign and at least one digit, at the head
  of a string: its value and the rest. Without digits there is no exponent part.
\<close>

definition exponent_part :: "string \<Rightarrow> int \<times> string" where
  "exponent_part s =
     (case s of
        [] \<Rightarrow> (0, s)
      | c # cs \<Rightarrow>
          if c = CHR ''e'' \<or> c = CHR ''E'' then
            (let negative = (cs \<noteq> [] \<and> hd cs = CHR ''-'');
                 signed = (cs \<noteq> [] \<and> (hd cs = CHR ''-'' \<or> hd cs = CHR ''+''));
                 body = (if signed then tl cs else cs);
                 ds = takeWhile isDigit body
             in if ds = [] then (0, s)
                else ((if negative then - int (digits_value ds) else int (digits_value ds)),
                      drop (length ds) body))
          else (0, s))"

text \<open>
  The longest decimal literal at the head of a string (no white space before it):
  its value and the rest of the string, or nothing when no literal starts there.
\<close>

definition decimal_prefix :: "string \<Rightarrow> (jsnum \<times> string) option" where
  "decimal_prefix s =
     (let negative = (s \<noteq> [] \<and> hd s = CHR ''-'');
          signed = (s \<noteq> [] \<and> (hd s = CHR ''-'' \<or> hd s = CHR ''+''));
          body = (if signed then tl s else s)
      in if startsWith body ''Infinity''
         then Some (signed_inf negative, drop 8 body)
         else
           (let ip = takeWhile isDigit body;
                r1 = drop (length ip) body;
                dotted = (r1 \<noteq> [] \<and> hd r1 = CHR ''.'');
                fp = (if dotted then takeWhile isDigit (tl r1) else []);
                r2 = (if dotted then drop (length fp) (tl r1) else r1)
            in if ip = [] \<and> fp = [] then None
               else
                 (let (e, r3) = exponent_part r2;
                      mantissa = real (digits_value ip)
                                 + real (digits_value fp) / 10 ^ length fp;
                      v = mantissa * 10 powi e
                  in Some (Num (if negative then - v else v), r3))))"

definition parseFloat :: "string \<Rightarrow> jsnum" where
  "parseFloat s =
     (case decimal_prefix (dropWhile isWhiteSpace s) of
        None \<Rightarrow> NaN
      | Some (v, rest) \<Rightarrow> v)"

text \<open>Literals with a radix prefix: \<open>0x\<close>, \<open>0o\<close>, \<open>0b\<close> in either case.\<close>

definition radix_digit :: "char \<Rightarrow> nat option" where
  "radix_digit c =
     (let n = (of_char c :: nat)
      in if 48 \<le> n \<and> n \<le> 57 then Some (n - 48)
         else if 97 \<le> n \<and> n \<le> 102 then Some (n - 87)
         else if 65 \<le> n \<and> n \<le> 70 then Some (n - 55)
         else None)"

definition radix_value :: "nat \<Rightarrow> string \<Rightarrow> nat option" where
  "radix_value base ds =
     (if ds \<noteq> [] \<and> (\<forall>c \<in> set ds. case radix_digit c of None \<Rightarrow> False | Some d \<Rightarrow> d < base)
      then Some (foldl (\<lambda>a c. base * a + the (radix_digit c)) 0 ds)
      else None)"

definition radix_literal :: "string \<Rightarrow> nat option" where
  "radix_literal s =
     (case s of
        z # x # ds \<Rightarrow>
          if z \<noteq> CHR ''0'' then None
          else if x = CHR ''x'' \<or> x = CHR ''X'' then radix_value 16 ds
          else if x = CHR ''o'' \<or> x = CHR ''O'' then radix_value 8 ds
          else if x = CHR ''b'' \<or> x = CHR ''B'' then radix_value 2 ds
          else None
      | _ \<Rightarrow> None)"

text \<open>
  The conversion of a string to a number, which a relational operator applies to a
  string operand: white space around is dropped, the empty string is 0, and the whole
  rest must be one literal.
\<close>

definition string_to_number :: "string \<Rightarrow> jsnum" where
  "string_to_number s =
     (let t = trim s
      in if t = [] then Num 0
         else case radix_literal t of
                Some n \<Rightarrow> Num (real n)
              | None \<Rightarrow>
                  (case decimal_prefix t of
                     Some (v, []) \<Rightarrow> v
                   | _ \<Rightarrow> NaN))"

subsection \<open>Risk premiums\<close>

text \<open>\<open>parseFloat(valueStr) || valueStr.trim()\<close> is a number or a string.\<close>

datatype threshold = NumberThreshold jsnum | StringThreshold string

definition threshold_of :: "string \<Rightarrow> threshold" where
  "threshold_of valueStr =
     (let v = parseFloat valueStr
      in if js_truthy v then NumberThreshold v else StringThreshold (trim valueStr))"

fun threshold_number :: "threshold \<Rightarrow> jsnum" where
  "threshold_number (NumberThreshold v) = v"
| "threshold_number (StringThreshold s) = string_to_number s"

text \<open>\<open>blockValue === threshold\<close>: never true of a number and a string, nor of NaN.\<close>

fun strict_equals :: "jsnum \<Rightarrow> threshold \<Rightarrow> bool" where
  "strict_equals a (NumberThreshold v) = (a = v \<and> a \<noteq> NaN)"
| "strict_equals a (StringThreshold s) = False"

definition block_attribute :: "string \<Rightarrow> BlockCharacteristics \<Rightarrow> jsnum option" where
  "block_attribute attr block =
     (if attr = ''depth'' then Some (Num (depth block))
      else if attr = ''rock_hardness'' then Some (Num (hardness block))
      else if attr = ''grade'' then Some (Num (grade block))
      else if attr = ''abrasivity'' then Some (Num (abrasivity block))
      else None)"

definition evaluateCondition :: "string \<Rightarrow> string \<Rightarrow> BlockCharacteristics \<Rightarrow> bool" where
  "evaluateCondition attr cond block =
     (case match_condition cond of
        None \<Rightarrow> False
      | Some (operator, valueStr) \<Rightarrow>
          (let threshold = threshold_of valueStr
           in case block_attribute attr block of
                None \<Rightarrow> False
              | Some blockValue \<Rightarrow>
                  if operator = ''>'' then js_gt blockValue (threshold_number threshold)
                  else if operator = ''>='' then js_ge blockValue (threshold_number threshold)
                  else if operator = ''<'' then js_lt blockValue (threshold_number threshold)
                  else if operator = ''<='' then js_le blockValue (threshold_number threshold)
                  else if operator = ''='' \<or> operator = ''=='' then strict_equals blockValue threshold
                  else if operator = ''!='' then \<not> strict_equals blockValue threshold
                  else False))"

text \<open>
  The loop of \<open>calculateRiskPremium\<close> over the premium rules, on the pair of the running
  total and the list of applied premiums (attribute and amount).
\<close>

fun risk_loop ::
  "BlockCharacteristics \<Rightarrow> RiskPremium list \<Rightarrow> jsnum \<times> (string \<times> jsnum) list
     \<Rightarrow> jsnum \<times> (string \<times> jsnum) list" where
  "risk_loop block [] acc = acc"
| "risk_loop block (p # ps) (totalPremium, appliedPremiums) =
     (if evaluateCondition (attribute p) (condition p) block
      then risk_loop block ps
             (js_add totalPremium (Num (premiumPercent p)),
              appliedPremiums @ [(attribute p, Num (premiumPercent p))])
      else risk_loop block ps (totalPremium, appliedPremiums))"

definition calculateRiskPremium ::
  "CostModelConfig \<Rightarrow> BlockCharacteristics \<Rightarrow> jsnum \<times> (string \<times> jsnum) list" where
  "calculateRiskPremium cfg block = risk_loop block (riskPremiums cfg) (Num 0, [])"

section \<open>Derived rates\<close>

record EquipmentRates =
  itemCode :: string
  costPerHour :: jsnum
  costPerDay :: jsnum
  costPerMonth :: jsnum
  costPerYear :: jsnum
  depreciationPerHour :: jsnum
  maintenancePerHour :: jsnum
  hoursPerDay :: jsnum
  daysPerMonth :: jsnum
  utilizationAssumption :: jsnum

record LaborRates =
  roleCode :: string
  loadedHourlyRate :: jsnum
  loadedDailyRate :: jsnum
  loadedMonthlyRate :: jsnum
  baseRate :: jsnum
  benefits :: jsnum
  overhead :: jsnum
  effectiveHourlyRate :: jsnum

text \<open>
  The rate record that \<open>calculateEquipmentRates\<close> derives from one catalog item, and
  the one that \<open>calculateLaborRates\<close> derives from one role: the bodies of the two
  \<open>map\<close> callbacks.
\<close>

definition equipment_rate :: "CostModelConfig \<Rightarrow> EquipmentItem \<Rightarrow> EquipmentRates" where
  "equipment_rate cfg item =
     (let targetCurrency = projectCurrency (calculatorSettings cfg);
          fxRate = getFXRate cfg (EquipmentItem.currency item) targetCurrency;
          costInProjectCurrency = js_mul (Num (baseCost item)) fxRate;
          depreciableValue =
            js_mul costInProjectCurrency
              (js_sub (Num 1) (js_div (Num (salvageValue item)) (Num 100)));
          annualDepreciation = js_div depreciableValue (Num (usefulLifeYears item));
          hoursDay = Num 20;
          daysMonth = Num 25;
          daysPerYear = Num 300;
          maintenancePercent = Num 0.05;
          insurancePercent = Num 0.02;
          annualMaintenance = js_mul costInProjectCurrency maintenancePercent;
          annualInsurance = js_mul costInProjectCurrency insurancePercent;
          totalAnnualCost =
            js_add (js_add annualDepreciation annualMaintenance) annualInsurance
      in \<lparr>EquipmentRates.itemCode = EquipmentItem.itemCode item,
          costPerHour = js_div totalAnnualCost (js_mul daysPerYear hoursDay),
          costPerDay = js_div totalAnnualCost daysPerYear,
          costPerMonth = js_div totalAnnualCost (Num 12),
          costPerYear = totalAnnualCost,
          depreciationPerHour = js_div annualDepreciation (js_mul daysPerYear hoursDay),
          maintenancePerHour = js_div annualMaintenance (js_mul daysPerYear hoursDay),
          hoursPerDay = hoursDay,
          daysPerMonth = daysMonth,
          utilizationAssumption = Num (planned (availability (projectParameters cfg)))\<rparr>)"

definition calculateEquipmentRates :: "CostModelConfig \<Rightarrow> EquipmentRates list" where
  "calculateEquipmentRates cfg = map (equipment_rate cfg) (items (equipmentCatalog cfg))"

definition labor_rate :: "CostModelConfig \<Rightarrow> LaborRole \<Rightarrow> LaborRates" where
  "labor_rate cfg role =
     (let targetCurrency = projectCurrency (calculatorSettings cfg);
          hoursPerYear = Num 2080;
          fxRate = getFXRate cfg (LaborRole.currency role) targetCurrency;
          baseAnnual = js_mul (Num (annualRate role)) fxRate;
          loadedAnnual = js_mul baseAnnual (Num (burdenRate role));
          loadedHourly = js_div loadedAnnual hoursPerYear;
          effectiveHourly = js_div loadedHourly (Num (utilizationFactor role))
      in \<lparr>LaborRates.roleCode = LaborRole.roleCode role,
          loadedHourlyRate = loadedHourly,
          loadedDailyRate = js_mul loadedHourly (Num 8),
          loadedMonthlyRate = js_div loadedAnnual (Num 12),
          baseRate = js_div baseAnnual hoursPerYear,
          benefits =
            js_div (js_mul baseAnnual (js_sub (Num (burdenRate role)) (Num 1))) hoursPerYear,
          overhead = Num 0,
          effectiveHourlyRate = effectiveHourly\<rparr>)"

definition calculateLaborRates :: "CostModelConfig \<Rightarrow> LaborRates list" where
  "calculateLaborRates cfg = map (labor_rate cfg) (roles (laborCatalog cfg))"

section \<open>BlockCostCalculator\<close>

text \<open>
  Reading a property of \<open>undefined\<close> throws a \<open>TypeError\<close>; it is the one way in which
  the engine fails. A computation that may throw returns the error on the left.
\<close>

datatype error = TypeError

record CapexComponent =
  equipmentDepreciation :: jsnum
  infrastructureAllocation :: jsnum
  total :: jsnum

record OpexComponent =
  labor :: jsnum
  consumables :: jsnum
  energy :: jsnum
  maintenance :: jsnum
  overhead :: jsnum
  total :: jsnum

text \<open>
  An entry of \<open>breakdown\<close> is the triple of category, cost and percentOfTotal; an
  applied margin, premium or discount is the pair of its name and amount.
  \<open>calculatedAt\<close> holds the clock reading whose ISO rendering the source stores.
\<close>

record BlockCostResult =
  blockId :: string
  calculatedAt :: jsdate
  configVersion :: string
  costPerTonne :: jsnum
  costPerMeter :: jsnum
  breakdown :: "(string \<times> jsnum \<times> jsnum) list"
  capexComponent :: CapexComponent
  opexComponent :: OpexComponent
  appliedMargins :: "(string \<times> jsnum) list"
  appliedPremiums :: "(string \<times> jsnum) list"
  appliedDiscounts :: "(string \<times> jsnum) list"
  subtotal :: jsnum
  contingency :: jsnum
  grandTotal :: jsnum

text \<open>
  \<open>penetrationRate.find(...) || penetrationRate[1]\<close>: the first entry whose rock type
  matches without regard to case, else the second entry of the list, which is
  \<open>undefined\<close> when the list has fewer than two entries.
\<close>

definition applicable_penRate ::
  "CostModelConfig \<Rightarrow> BlockCharacteristics \<Rightarrow> PenetrationRate option" where
  "applicable_penRate cfg block =
     (let prs = penetrationRate (projectParameters cfg)
      in case find (\<lambda>r. toLowerCase (PenetrationRate.rockType r)
                          = toLowerCase (BlockCharacteristics.rockType block)) prs of
           Some r \<Rightarrow> Some r
         | None \<Rightarrow> if 1 < length prs then Some (prs ! 1) else None)"

definition calculateLaborCost ::
  "CostModelConfig \<Rightarrow> BlockCharacteristics \<Rightarrow> error + jsnum" where
  "calculateLaborCost cfg block =
     (case applicable_penRate cfg block of
        None \<Rightarrow> Inl TypeError
      | Some penRate \<Rightarrow>
          (let av = availability (projectParameters cfg);
               metersToMine = js_mul (Num (strikeLength block)) (Num (width block));
               miningHours = js_div metersToMine (Num (metersPerHour penRate));
               effectiveHours =
                 js_div miningHours
                   (js_mul (js_mul (Num (planned av)) (Num (mechanical av)))
                      (Num (operational av)))
           in Inr (foldl (\<lambda>totalLabor rate.
                     let weight = (if includes_str (LaborRates.roleCode rate) ''direct''
                                   then Num 1.0 else Num 0.3)
                     in js_add totalLabor
                          (js_mul (js_mul (effectiveHourlyRate rate) effectiveHours) weight))
                   (Num 0) (calculateLaborRates cfg))))"

definition estimateMiningHours ::
  "CostModelConfig \<Rightarrow> BlockCharacteristics \<Rightarrow> error + jsnum" where
  "estimateMiningHours cfg block =
     (case applicable_penRate cfg block of
        None \<Rightarrow> Inl TypeError
      | Some penRate \<Rightarrow>
          (let av = availability (projectParameters cfg);
               metersToMine = js_mul (Num (strikeLength block)) (Num (width block));
               baseHours = js_div metersToMine (Num (metersPerHour penRate));
               oee = js_mul (js_mul (Num (planned av)) (Num (mechanical av)))
                       (Num (operational av))
           in Inr (js_div baseHours oee)))"

text \<open>Sequencing of computations that may throw.\<close>

definition and_then :: "error + 'a \<Rightarrow> ('a \<Rightarrow> error + 'b) \<Rightarrow> error + 'b" where
  "and_then m f = (case m of Inl e \<Rightarrow> Inl e | Inr x \<Rightarrow> f x)"

definition calculateEquipmentCost ::
  "CostModelConfig \<Rightarrow> BlockCharacteristics \<Rightarrow> error + jsnum" where
  "calculateEquipmentCost cfg block =
     and_then (estimateMiningHours cfg block) (\<lambda>miningHours.
       Inr (foldl (\<lambda>totalEquipment rate. js_add totalEquipment (js_mul (costPerHour rate) miningHours))
              (Num 0) (calculateEquipmentRates cfg)))"

definition calculateConsumablesCost :: "BlockCharacteristics \<Rightarrow> jsnum" where
  "calculateConsumablesCost block =
     (let baseRatePerTonne = Num 2.50;
          depthMultiplier0 = (if depth block > 500 then Num 1.25 else Num 1.0);
          depthMultiplier = (if depth block > 1000 then Num 1.5 else depthMultiplier0);
          hardnessMultiplier0 = (if hardness block > 6 then Num 1.3 else Num 1.0);
          hardnessMultiplier = (if hardness block > 8 then Num 1.6 else hardnessMultiplier0)
      in js_mul (js_mul (js_mul baseRatePerTonne (Num (tonnage block))) depthMultiplier)
           hardnessMultiplier)"

text \<open>\<open>item.specs.powerKW || 0\<close>: an absent or zero power counts as 0.\<close>

definition power_or_zero :: "EquipmentItem \<Rightarrow> jsnum" where
  "power_or_zero item =
     (case powerKW item of None \<Rightarrow> Num 0 | Some p \<Rightarrow> js_or (Num p) (Num 0))"

definition calculateEnergyCost ::
  "CostModelConfig \<Rightarrow> BlockCharacteristics \<Rightarrow> error + jsnum" where
  "calculateEnergyCost cfg block =
     and_then (estimateMiningHours cfg block) (\<lambda>miningHours.
       let totalPowerKW = foldl (\<lambda>acc item. js_add acc (power_or_zero item)) (Num 0)
                            (items (equipmentCatalog cfg));
           kWhConsumed = js_mul totalPowerKW miningHours;
           electricityRate = Num 0.12
       in Inr (js_mul kWhConsumed electricityRate))"

definition calculateMaintenanceCost ::
  "CostModelConfig \<Rightarrow> BlockCharacteristics \<Rightarrow> error + jsnum" where
  "calculateMaintenanceCost cfg block =
     and_then (estimateMiningHours cfg block) (\<lambda>miningHours.
       Inr (foldl (\<lambda>totalMaintenance rate.
                     js_add totalMaintenance (js_mul (maintenancePerHour rate) miningHours))
              (Num 0) (calculateEquipmentRates cfg)))"

definition calculateOverhead ::
  "CostModelConfig \<Rightarrow> BlockCharacteristics \<Rightarrow> error + jsnum" where
  "calculateOverhead cfg block =
     and_then (calculateLaborCost cfg block) (\<lambda>laborCost.
     and_then (calculateEquipmentCost cfg block) (\<lambda>equipmentCost.
       let directCosts = js_add laborCost equipmentCost;
           overheadRate = Num 0.15
       in Inr (js_mul directCosts overheadRate)))"

definition calculateCAPEXAllocation ::
  "CostModelConfig \<Rightarrow> BlockCharacteristics \<Rightarrow> CapexComponent" where
  "calculateCAPEXAllocation cfg block =
     (let totalEquipmentCapital =
            foldl (\<lambda>sum item. js_add sum (Num (baseCost item))) (Num 0)
              (items (equipmentCatalog cfg));
          totalProductionEstimate = js_mul (Num (tonnage block)) (Num 1000);
          depreciationPerTonne = js_div totalEquipmentCapital totalProductionEstimate;
          equipmentDepr = js_mul depreciationPerTonne (Num (tonnage block));
          infrastructureAlloc = js_mul (Num (tonnage block)) (Num 1.0)
      in \<lparr>equipmentDepreciation = equipmentDepr,
          infrastructureAllocation = infrastructureAlloc,
          CapexComponent.total = js_add equipmentDepr infrastructureAlloc\<rparr>)"

text \<open>\<open>if (margin) appliedMargins.push(...)\<close>: a margin of 0 is not recorded.\<close>

definition push_margin :: "string \<Rightarrow> jsnum \<Rightarrow> (string \<times> jsnum) list" where
  "push_margin rule margin = (if js_truthy margin then [(rule, margin)] else [])"

text \<open>
  \<open>calculateBlockCost\<close>. The clock reading \<open>now\<close> stands for each \<open>new Date()\<close> of one
  call. The cost of equipment is computed and enters the result only through the
  overhead.
\<close>

definition calculateBlockCost ::
  "(string \<Rightarrow> jsdate) \<Rightarrow> CostModelConfig \<Rightarrow> jsdate \<Rightarrow> BlockCharacteristics
     \<Rightarrow> error + BlockCostResult" where
  "calculateBlockCost parseDate cfg now block =
     and_then (calculateLaborCost cfg block) (\<lambda>laborCost.
     and_then (calculateEquipmentCost cfg block) (\<lambda>equipmentCost.
     let consumablesCost = calculateConsumablesCost block in
     and_then (calculateEnergyCost cfg block) (\<lambda>energyCost.
     and_then (calculateMaintenanceCost cfg block) (\<lambda>maintenanceCost.
     and_then (calculateOverhead cfg block) (\<lambda>overheadCost.
     let capexAllocation = calculateCAPEXAllocation cfg block;
         (riskPremium, premiums) = calculateRiskPremium cfg block;
         laborMargin = getMargin parseDate cfg ''labor'' now;
         equipmentMargin = getMargin parseDate cfg ''equipment'' now;
         margins = push_margin ''labor'' laborMargin @ push_margin ''equipment'' equipmentMargin;
         discounts = [];
         opexTotal = js_add (js_add (js_add (js_add laborCost consumablesCost) energyCost)
                       maintenanceCost) overheadCost;
         capexTotal = js_add (equipmentDepreciation capexAllocation)
                        (infrastructureAllocation capexAllocation);
         sub = js_add opexTotal capexTotal;
         riskAdjustment = js_mul sub (js_div riskPremium (Num 100));
         marginAdjustment =
           foldl (\<lambda>sum m. js_add sum (js_mul (js_div (snd m) (Num 100)) sub)) (Num 0) margins;
         discountAdjustment =
           foldl (\<lambda>sum d. js_sub sum (js_mul (js_div (snd d) (Num 100)) sub)) (Num 0) discounts;
         contingencyRate = js_div (Num (contingencyPercent (calculatorSettings cfg))) (Num 100);
         cont = js_mul sub contingencyRate;
         grand = js_add (js_add (js_add (js_add sub riskAdjustment) marginAdjustment)
                   discountAdjustment) cont;
         perTonne = js_div grand (Num (tonnage block));
         perMeter = js_div grand (js_or (Num (strikeLength block)) (Num 1));
         percent = (\<lambda>cost. js_mul (js_div cost grand) (Num 100))
     in Inr \<lparr>blockId = BlockCharacteristics.blockId block,
             calculatedAt = now,
             configVersion = version cfg,
             costPerTonne = perTonne,
             costPerMeter = perMeter,
             breakdown =
               [(''Labor'', laborCost, percent laborCost),
                (''Consumables'', consumablesCost, percent consumablesCost),
                (''Energy'', energyCost, percent energyCost),
                (''Maintenance'', maintenanceCost, percent maintenanceCost),
                (''Overhead'', overheadCost, percent overheadCost),
                (''Equipment CAPEX'', equipmentDepreciation capexAllocation,
                   percent (equipmentDepreciation capexAllocation)),
                (''Infrastructure'', infrastructureAllocation capexAllocation,
                   percent (infrastructureAllocation capexAllocation))],
             capexComponent = capexAllocation,
             opexComponent =
               \<lparr>labor = laborCost, consumables = consumablesCost, energy = energyCost,
                maintenance = maintenanceCost, OpexComponent.overhead = overheadCost,
                OpexComponent.total = opexTotal\<rparr>,
             appliedMargins = margins,
             appliedPremiums = premiums,
             appliedDiscounts = discounts,
             subtotal = sub,
             contingency = cont,
             grandTotal = grand\<rparr>)))))"

section \<open>ProjectAggregator\<close>

record BlockSchedule =
  blockId :: string
  period :: string
  sequence :: real

record PeriodCapex =
  equipment :: jsnum
  infrastructure :: jsnum
  development :: jsnum
  workingCapital :: jsnum
  total :: jsnum

record PeriodOpex =
  mining :: jsnum
  processing :: jsnum
  maintenance :: jsnum
  labor :: jsnum
  energy :: jsnum
  gAndA :: jsnum
  other :: jsnum
  total :: jsnum

record ProjectCashflow =
  period :: string
  year :: int
  month :: int
  capex :: PeriodCapex
  opex :: PeriodOpex
  netCashflow :: jsnum
  cumulativeCashflow :: jsnum

record ProjectSummary =
  projectStart :: string
  projectEnd :: string
  totalMonths :: nat
  totalCAPEX :: jsnum
  totalOPEX :: jsnum
  totalCashflow :: jsnum
  npv :: jsnum
  irr :: jsnum
  paybackMonths :: nat
  costPerTonne :: jsnum
  costPerMeter :: jsnum
  opexIntensity :: jsnum
  fixedCosts :: jsnum
  variableCosts :: jsnum
  fixedCostRatio :: jsnum

text \<open>The decimal rendering of an integer, \<open>String(n)\<close>, and \<open>padStart\<close>.\<close>

fun show_nat :: "nat \<Rightarrow> string" where
  "show_nat n =
     (if n < 10 then [char_of (48 + n)]
      else show_nat (n div 10) @ [char_of (48 + n mod 10)])"

declare show_nat.simps [simp del]

definition show_int :: "int \<Rightarrow> string" where
  "show_int i = (if i < 0 then CHR ''-'' # show_nat (nat (- i)) else show_nat (nat i))"

definition padStart :: "nat \<Rightarrow> char \<Rightarrow> string \<Rightarrow> string" where
  "padStart n c s = replicate (n - length s) c @ s"

definition period_name :: "int \<Rightarrow> int \<Rightarrow> string" where
  "period_name y m = show_int y @ ''-'' @ padStart 2 CHR ''0'' (show_int m)"

text \<open>
  The map of block costs, filled block by block: a later block of the same identifier
  replaces the earlier entry, and the first block that cannot be costed ends the run.
\<close>

fun block_costs_loop ::
  "(string \<Rightarrow> jsdate) \<Rightarrow> CostModelConfig \<Rightarrow> jsdate \<Rightarrow> BlockCharacteristics list
     \<Rightarrow> (string \<rightharpoonup> BlockCostResult) \<Rightarrow> error + (string \<rightharpoonup> BlockCostResult)" where
  "block_costs_loop parseDate cfg now [] blockCosts = Inr blockCosts"
| "block_costs_loop parseDate cfg now (block # rest) blockCosts =
     (case calculateBlockCost parseDate cfg now block of
        Inl e \<Rightarrow> Inl e
      | Inr cost \<Rightarrow>
          block_costs_loop parseDate cfg now rest
            (blockCosts(BlockCharacteristics.blockId block \<mapsto> cost)))"

text \<open>The sums of one period over the blocks scheduled for it.\<close>

fun period_sums ::
  "(string \<rightharpoonup> BlockCostResult) \<Rightarrow> BlockCharacteristics list \<Rightarrow> BlockSchedule list
     \<Rightarrow> jsnum \<times> jsnum \<times> jsnum \<Rightarrow> jsnum \<times> jsnum \<times> jsnum" where
  "period_sums blockCosts blocks [] acc = acc"
| "period_sums blockCosts blocks (scheduled # rest) (periodCapex, periodOpex, periodTonnage) =
     (case (blockCosts (BlockSchedule.blockId scheduled),
            find (\<lambda>b. BlockCharacteristics.blockId b = BlockSchedule.blockId scheduled) blocks) of
        (Some cost, Some block) \<Rightarrow>
          period_sums blockCosts blocks rest
            (js_add periodCapex (CapexComponent.total (capexComponent cost)),
             js_add periodOpex (OpexComponent.total (opexComponent cost)),
             js_add periodTonnage (Num (tonnage block)))
      | _ \<Rightarrow> period_sums blockCosts blocks rest (periodCapex, periodOpex, periodTonnage))"

definition period_cashflow ::
  "(string \<rightharpoonup> BlockCostResult) \<Rightarrow> BlockCharacteristics list \<Rightarrow> BlockSchedule list
     \<Rightarrow> int \<Rightarrow> int \<Rightarrow> ProjectCashflow" where
  "period_cashflow blockCosts blocks schedule y m =
     (let p = period_name y m;
          scheduledBlocks = filter (\<lambda>s. BlockSchedule.period s = p) schedule;
          (periodCapex, periodOpex, periodTonnage) =
            period_sums blockCosts blocks scheduledBlocks (Num 0, Num 0, Num 0)
      in \<lparr>ProjectCashflow.period = p,
          year = y,
          month = m,
          capex =
            \<lparr>equipment = js_mul periodCapex (Num 0.7),
             infrastructure = js_mul periodCapex (Num 0.2),
             development = js_mul periodCapex (Num 0.1),
             workingCapital = Num 0,
             PeriodCapex.total = periodCapex\<rparr>,
          opex =
            \<lparr>mining = js_mul periodOpex (Num 0.4),
             processing = js_mul periodOpex (Num 0.2),
             PeriodOpex.maintenance = js_mul periodOpex (Num 0.15),
             PeriodOpex.labor = js_mul periodOpex (Num 0.15),
             PeriodOpex.energy = js_mul periodOpex (Num 0.05),
             gAndA = js_mul periodOpex (Num 0.05),
             other = Num 0,
             PeriodOpex.total = periodOpex\<rparr>,
          netCashflow = js_neg (js_add periodCapex periodOpex),
          cumulativeCashflow = Num 0\<rparr>)"

text \<open>The second pass: the running sum of the net cash flows is written into each period.\<close>

fun accumulate :: "jsnum \<Rightarrow> ProjectCashflow list \<Rightarrow> ProjectCashflow list" where
  "accumulate cumulative [] = []"
| "accumulate cumulative (cf # cfs) =
     (let c = js_add cumulative (netCashflow cf)
      in cf\<lparr>cumulativeCashflow := c\<rparr> # accumulate c cfs)"

definition generateCashflow ::
  "(string \<Rightarrow> jsdate) \<Rightarrow> CostModelConfig \<Rightarrow> jsdate \<Rightarrow> BlockCharacteristics list
     \<Rightarrow> BlockSchedule list \<Rightarrow> error + ProjectCashflow list" where
  "generateCashflow parseDate cfg now blocks schedule =
     and_then (block_costs_loop parseDate cfg now blocks Map.empty) (\<lambda>blockCosts.
       let start = startYear (lifeOfMine (projectParameters cfg));
           endYear = start + years (lifeOfMine (projectParameters cfg));
           cashflows =
             concat (map (\<lambda>y. map (\<lambda>m. period_cashflow blockCosts blocks schedule y m) [1..12])
                       [start..endYear])
       in Inr (accumulate (Num 0) cashflows))"

subsection \<open>Internal rate of return\<close>

text \<open>
  The inner loop of \<open>calculateIRR\<close> over the periods, on the pair of the net present
  value and its derivative; \<open>t\<close> is the index of the head of the list.
\<close>

fun irr_sums :: "jsnum \<Rightarrow> nat \<Rightarrow> jsnum list \<Rightarrow> jsnum \<times> jsnum \<Rightarrow> jsnum \<times> jsnum" where
  "irr_sums rate t [] acc = acc"
| "irr_sums rate t (c # cs) (npv_acc, derivNPV) =
     (let factor = js_pow (js_add (Num 1) rate) (js_div (Num (real t)) (Num 12))
      in irr_sums rate (Suc t) cs
           (js_add npv_acc (js_div c factor),
            js_sub derivNPV
              (js_div (js_mul (js_div (Num (real t)) (Num 12)) c)
                 (js_mul factor (js_add (Num 1) rate)))))"

text \<open>
  The Newton-Raphson loop, with the number of iterations left. \<open>None\<close> is the \<open>null\<close>
  of the source: a derivative below the tolerance, or no convergence.
\<close>

fun irr_loop :: "nat \<Rightarrow> jsnum list \<Rightarrow> jsnum \<Rightarrow> jsnum option" where
  "irr_loop 0 cashflows rate = None"
| "irr_loop (Suc n) cashflows rate =
     (let (npv_v, derivNPV) = irr_sums rate 0 cashflows (Num 0, Num 0)
      in if js_lt (js_abs derivNPV) (Num 0.0001) then None
         else (let newRate = js_sub rate (js_div npv_v derivNPV)
               in if js_lt (js_abs (js_sub newRate rate)) (Num 0.0001) then Some newRate
                  else irr_loop n cashflows newRate))"

definition calculateIRR :: "jsnum list \<Rightarrow> jsnum \<Rightarrow> jsnum option" where
  "calculateIRR cashflows guess = irr_loop 100 cashflows guess"

subsection \<open>Summary\<close>

fun npv_loop :: "jsnum \<Rightarrow> nat \<Rightarrow> ProjectCashflow list \<Rightarrow> jsnum \<Rightarrow> jsnum" where
  "npv_loop rate i [] acc = acc"
| "npv_loop rate i (cf # cfs) acc =
     (let p = js_div (Num (real i)) (Num 12)
      in npv_loop rate (Suc i) cfs
           (js_add acc (js_div (netCashflow cf) (js_pow (js_add (Num 1) rate) p))))"

text \<open>\<open>findIndex\<close>: the index of the first element that satisfies the test, if any.\<close>

fun findIndex :: "('a \<Rightarrow> bool) \<Rightarrow> 'a list \<Rightarrow> nat option" where
  "findIndex P [] = None"
| "findIndex P (x # xs) =
     (if P x then Some 0 else map_option Suc (findIndex P xs))"

text \<open>\<open>irr || 0\<close> on the result of \<open>calculateIRR\<close>: \<open>null\<close>, 0 and NaN all become 0.\<close>

definition irr_or_zero :: "jsnum option \<Rightarrow> jsnum" where
  "irr_or_zero r = (case r of None \<Rightarrow> Num 0 | Some v \<Rightarrow> js_or v (Num 0))"

definition generateSummary :: "CostModelConfig \<Rightarrow> ProjectCashflow list \<Rightarrow> ProjectSummary" where
  "generateSummary cfg cashflows =
     (let lom = lifeOfMine (projectParameters cfg);
          totCAPEX = foldl (\<lambda>sum cf. js_add sum (PeriodCapex.total (capex cf))) (Num 0) cashflows;
          totOPEX = foldl (\<lambda>sum cf. js_add sum (PeriodOpex.total (opex cf))) (Num 0) cashflows;
          totCashflow = (if cashflows = [] then Num 0
                         else js_or (cumulativeCashflow (last cashflows)) (Num 0));
          rate = Num (discountRate (aggregatorSettings cfg));
          npv_v = npv_loop rate 0 cashflows (Num 0);
          irr_v = calculateIRR (map netCashflow cashflows) (Num 0.1);
          payback = (case findIndex (\<lambda>cf. js_ge (cumulativeCashflow cf) (Num 0)) cashflows of
                       Some i \<Rightarrow> i
                     | None \<Rightarrow> length cashflows);
          totalTonnage = Num 1000000;
          totalMeters = Num 5000
      in \<lparr>projectStart = show_int (startYear lom) @ ''-01'',
          projectEnd = show_int (startYear lom + years lom) @ ''-12'',
          totalMonths = length cashflows,
          totalCAPEX = totCAPEX,
          totalOPEX = totOPEX,
          totalCashflow = totCashflow,
          npv = npv_v,
          irr = irr_or_zero irr_v,
          paybackMonths = payback,
          ProjectSummary.costPerTonne = js_div (js_add totCAPEX totOPEX) totalTonnage,
          ProjectSummary.costPerMeter = js_div (js_add totCAPEX totOPEX) totalMeters,
          opexIntensity = Num 0,
          fixedCosts = totCAPEX,
          variableCosts = totOPEX,
          fixedCostRatio = js_div totCAPEX (js_add totCAPEX totOPEX)\<rparr>)"

section \<open>The engine facade\<close>

fun calculateBlocks ::
  "(string \<Rightarrow> jsdate) \<Rightarrow> CostModelConfig \<Rightarrow> jsdate \<Rightarrow> BlockCharacteristics list
     \<Rightarrow> error + BlockCostResult list" where
  "calculateBlocks parseDate cfg now [] = Inr []"
| "calculateBlocks parseDate cfg now (block # rest) =
     and_then (calculateBlockCost parseDate cfg now block) (\<lambda>cost.
     and_then (calculateBlocks parseDate cfg now rest) (\<lambda>costs. Inr (cost # costs)))"

definition runFullProjection ::
  "(string \<Rightarrow> jsdate) \<Rightarrow> CostModelConfig \<Rightarrow> jsdate \<Rightarrow> BlockCharacteristics list
     \<Rightarrow> BlockSchedule list
     \<Rightarrow> error + (BlockCostResult list \<times> ProjectCashflow list \<times> ProjectSummary)" where
  "runFullProjection parseDate cfg now blocks schedule =
     and_then (calculateBlocks parseDate cfg now blocks) (\<lambda>blockCosts.
     and_then (generateCashflow parseDate cfg now blocks schedule) (\<lambda>cashflows.
       Inr (blockCosts, cashflows, generateSummary cfg cashflows)))"

definition applyVariation :: "CostModelConfig \<Rightarrow> string \<Rightarrow> real \<Rightarrow> CostModelConfig" where
  "applyVariation cfg variable variation =
     (let multiplier = 1 + variation / 100
      in if variable = ''discount_rate'' then
           cfg\<lparr>aggregatorSettings :=
                 (aggregatorSettings cfg)
                   \<lparr>discountRate := discountRate (aggregatorSettings cfg) * multiplier\<rparr>\<rparr>
         else if variable = ''equipment_cost'' then
           cfg\<lparr>equipmentCatalog :=
                 (equipmentCatalog cfg)
                   \<lparr>items := map (\<lambda>item. item\<lparr>baseCost := baseCost item * multiplier\<rparr>)
                              (items (equipmentCatalog cfg))\<rparr>\<rparr>
         else if variable = ''labor_cost'' then
           cfg\<lparr>laborCatalog :=
                 (laborCatalog cfg)
                   \<lparr>roles := map (\<lambda>role. role\<lparr>annualRate := annualRate role * multiplier\<rparr>)
                              (roles (laborCatalog cfg))\<rparr>\<rparr>
         else cfg)"

text \<open>An entry of the sensitivity result is the triple of variation, NPV and IRR.\<close>

fun runSensitivity ::
  "(string \<Rightarrow> jsdate) \<Rightarrow> CostModelConfig \<Rightarrow> jsdate \<Rightarrow> BlockCharacteristics list
     \<Rightarrow> BlockSchedule list \<Rightarrow> string \<Rightarrow> real list \<Rightarrow> error + (real \<times> jsnum \<times> jsnum) list" where
  "runSensitivity parseDate cfg now blocks schedule variable [] = Inr []"
| "runSensitivity parseDate cfg now blocks schedule variable (variation # rest) =
     (let modifiedConfig = applyVariation cfg variable variation
      in and_then (runFullProjection parseDate modifiedConfig now blocks schedule)
           (\<lambda>(blockCosts, cashflows, summary).
              and_then (runSensitivity parseDate cfg now blocks schedule variable rest)
                (\<lambda>results. Inr ((variation, npv summary, irr summary) # results))))"

section \<open>Reference formulations and sample data\<close>

text \<open>
  The selection of a margin as the specification words it: the margin of the first rule
  of the category whose validity window contains the date, 0 without such a rule. The
  window is a parameter, closed or half-open; its end is \<open>validTo\<close>, or the last day
  of 2099 when the rule has none.
\<close>

definition validity_end :: "(string \<Rightarrow> jsdate) \<Rightarrow> MarginRule \<Rightarrow> jsdate" where
  "validity_end parseDate r =
     (case validTo r of
        None \<Rightarrow> parseDate ''2099-12-31''
      | Some s \<Rightarrow> if s = [] then parseDate ''2099-12-31'' else parseDate s)"

definition window_half_open :: "(string \<Rightarrow> jsdate) \<Rightarrow> MarginRule \<Rightarrow> jsdate \<Rightarrow> bool" where
  "window_half_open parseDate r date =
     (case (parseDate (validFrom r), validity_end parseDate r, date) of
        (Date f, Date t, Date d) \<Rightarrow> f \<le> d \<and> d < t
      | _ \<Rightarrow> False)"

definition window_closed :: "(string \<Rightarrow> jsdate) \<Rightarrow> MarginRule \<Rightarrow> jsdate \<Rightarrow> bool" where
  "window_closed parseDate r date =
     (case (parseDate (validFrom r), validity_end parseDate r, date) of
        (Date f, Date t, Date d) \<Rightarrow> f \<le> d \<and> d \<le> t
      | _ \<Rightarrow> False)"

definition first_match_margin ::
  "(MarginRule \<Rightarrow> jsdate \<Rightarrow> bool) \<Rightarrow> CostModelConfig \<Rightarrow> string \<Rightarrow> jsdate \<Rightarrow> jsnum" where
  "first_match_margin window cfg category date =
     (case find (\<lambda>r. costCategory r = category \<and> window r date) (marginRules cfg) of
        None \<Rightarrow> Num 0
      | Some r \<Rightarrow> Num (marginPercent r))"

text \<open>A premium rule applies to a block when its condition evaluates true against it.\<close>

definition premium_applies :: "BlockCharacteristics \<Rightarrow> RiskPremium \<Rightarrow> bool" where
  "premium_applies block p = evaluateCondition (attribute p) (condition p) block"

text \<open>
  A sample configuration: the default rate table, penetration rates and availability of
  \<open>createDefaultConfig\<close>, one drill, one operator, one margin rule for the year 2024 and
  the two premium rules given as examples beside \<open>RiskPremiums\<close>.
\<close>

definition example_config :: CostModelConfig where
  "example_config =
     \<lparr>version = ''3.0.0'',
      fxRates = \<lparr>rates = \<lparr>CAD = 1.36, EUR = 0.92, AUD = 1.53, GBP = 0.79\<rparr>\<rparr>,
      projectParameters =
        \<lparr>lifeOfMine = \<lparr>years = 1, startYear = 2025\<rparr>,
         penetrationRate =
           [\<lparr>metersPerHour = 2.5, PenetrationRate.rockType = ''soft''\<rparr>,
            \<lparr>metersPerHour = 1.5, PenetrationRate.rockType = ''medium''\<rparr>,
            \<lparr>metersPerHour = 0.8, PenetrationRate.rockType = ''hard''\<rparr>],
         availability = \<lparr>planned = 0.92, mechanical = 0.95, operational = 0.97\<rparr>\<rparr>,
      equipmentCatalog =
        \<lparr>items = [\<lparr>EquipmentItem.itemCode = ''DRILL-01'', baseCost = 1000000,
                    EquipmentItem.currency = ''USD'', powerKW = Some 100,
                    usefulLifeYears = 10, salvageValue = 10\<rparr>]\<rparr>,
      laborCatalog =
        \<lparr>roles = [\<lparr>LaborRole.roleCode = ''direct-operator'', annualRate = 104000,
                    LaborRole.currency = ''CAD'', utilizationFactor = 0.8,
                    burdenRate = 1.4\<rparr>]\<rparr>,
      marginRules =
        [\<lparr>costCategory = ''labor'', marginPercent = 15,
          validFrom = ''2024-01-01'', validTo = Some ''2024-12-31''\<rparr>],
      riskPremiums =
        [\<lparr>attribute = ''depth'', condition = ''> 500'', premiumPercent = 5\<rparr>,
         \<lparr>attribute = ''rock_hardness'', condition = ''> 8'', premiumPercent = 3\<rparr>],
      calculatorSettings = \<lparr>contingencyPercent = 10, projectCurrency = ''USD''\<rparr>,
      aggregatorSettings = \<lparr>discountRate = 0.08\<rparr>\<rparr>"

definition example_block :: BlockCharacteristics where
  "example_block =
     \<lparr>BlockCharacteristics.blockId = ''B1'', depth = 600, tonnage = 1000, grade = 2, rockType = ''Hard'',
      hardness = 9, abrasivity = 3, strikeLength = 10, width = 2\<rparr>"

text \<open>
  The time values of three date strings (midnight UTC of a date-only ISO string), as a
  date parser for the examples.
\<close>

definition known_dates :: "string \<Rightarrow> jsdate" where
  "known_dates s =
     (if s = ''2024-01-01'' then Date 1704067200000
      else if s = ''2024-12-31'' then Date 1735603200000
      else if s = ''2099-12-31'' then Date 4102358400000
      else InvalidDate)"

text \<open>
  The adjustments of a cost result, each taken on the subtotal of the result: the risk
  adjustment is the subtotal times the sum of the applied premiums over 100, the margin
  adjustment adds the subtotal times each applied margin over 100, the discount
  adjustment subtracts the subtotal times each applied discount over 100.
\<close>

definition amounts_sum :: "(string \<times> jsnum) list \<Rightarrow> jsnum" where
  "amounts_sum ms = foldl (\<lambda>s m. js_add s (snd m)) (Num 0) ms"

definition riskAdjustment_of :: "BlockCostResult \<Rightarrow> jsnum" where
  "riskAdjustment_of r = js_mul (subtotal r) (js_div (amounts_sum (appliedPremiums r)) (Num 100))"

definition marginAdjustment_of :: "BlockCostResult \<Rightarrow> jsnum" where
  "marginAdjustment_of r =
     foldl (\<lambda>s m. js_add s (js_mul (js_div (snd m) (Num 100)) (subtotal r))) (Num 0)
       (appliedMargins r)"

definition discountAdjustment_of :: "BlockCostResult \<Rightarrow> jsnum" where
  "discountAdjustment_of r =
     foldl (\<lambda>s d. js_sub s (js_mul (js_div (snd d) (Num 100)) (subtotal r))) (Num 0)
       (appliedDiscounts r)"

text \<open>Some configured penetration rate has the rock type of the block, case ignored.\<close>

definition rock_type_matches :: "CostModelConfig \<Rightarrow> BlockCharacteristics \<Rightarrow> bool" where
  "rock_type_matches cfg block =
     (\<exists>r \<in> set (penetrationRate (projectParameters cfg)).
        toLowerCase (PenetrationRate.rockType r) = toLowerCase (BlockCharacteristics.rockType block))"

text \<open>A rejection is an error result; a cost result is non-finite when one of its totals is.\<close>

definition is_rejection :: "error + BlockCostResult \<Rightarrow> bool" where
  "is_rejection res = isl res"

definition has_non_finite :: "error + BlockCostResult \<Rightarrow> bool" where
  "has_non_finite res =
     (case res of
        Inl e \<Rightarrow> False
      | Inr r \<Rightarrow> \<not> (is_finite (BlockCostResult.costPerTonne r)
                    \<and> is_finite (BlockCostResult.costPerMeter r)
                    \<and> is_finite (subtotal r) \<and> is_finite (contingency r)
                    \<and> is_finite (grandTotal r)))"

text \<open>
  More sample data: a clock reading on 2024-06-15, a configuration with a single
  penetration rate, a block of a rock type that no rate names, a block without tonnage.
\<close>

definition sample_now :: jsdate where
  "sample_now = Date 1718409600000"

definition single_rate_config :: CostModelConfig where
  "single_rate_config =
     example_config\<lparr>projectParameters :=
       (projectParameters example_config)
         \<lparr>penetrationRate := [\<lparr>metersPerHour = 2.5, PenetrationRate.rockType = ''soft''\<rparr>]\<rparr>\<rparr>"

definition granite_block :: BlockCharacteristics where
  "granite_block = example_block\<lparr>rockType := ''granite''\<rparr>"

definition zero_tonnage_block :: BlockCharacteristics where
  "zero_tonnage_block = example_block\<lparr>tonnage := 0\<rparr>"

text \<open>
  A schedule that puts the sample block into March 2025, the cash flows of the sample
  block under that schedule, and the cash flows of a project without any block.
\<close>

definition example_schedule :: "BlockSchedule list" where
  "example_schedule =
     [\<lparr>BlockSchedule.blockId = ''B1'', BlockSchedule.period = ''2025-03'', sequence = 1\<rparr>]"

definition example_cashflows :: "ProjectCashflow list" where
  "example_cashflows =
     projr (generateCashflow known_dates example_config sample_now [example_block] example_schedule)"

definition idle_cashflows :: "ProjectCashflow list" where
  "idle_cashflows = projr (generateCashflow known_dates example_config sample_now [] [])"

text \<open>The periods before the second pass.\<close>

definition raw_cashflows ::
  "CostModelConfig \<Rightarrow> (string \<rightharpoonup> BlockCostResult) \<Rightarrow> BlockCharacteristics list
     \<Rightarrow> BlockSchedule list \<Rightarrow> ProjectCashflow list" where
  "raw_cashflows cfg blockCosts blocks schedule =
     concat (map (\<lambda>y. map (\<lambda>m. period_cashflow blockCosts blocks schedule y m) [1..12])
       [startYear (lifeOfMine (projectParameters cfg))
        ..startYear (lifeOfMine (projectParameters cfg)) + years (lifeOfMine (projectParameters cfg))])"

text \<open>A result of \<open>calculateIRR\<close> lies within a tolerance of a target rate.\<close>

definition within_tolerance :: "jsnum option \<Rightarrow> real \<Rightarrow> real \<Rightarrow> bool" where
  "within_tolerance result target tol =
     (case result of Some (Num r) \<Rightarrow> \<bar>r - target\<bar> \<le> tol | _ \<Rightarrow> False)"

text \<open>The two-period series of the specification.\<close>

definition two_period_series :: "jsnum list" where
  "two_period_series = [Num (- 1000), Num 1100]"

text \<open>
  The configuration with every base cost of the equipment catalog multiplied by a
  factor, all other fields kept.
\<close>

definition scale_equipment :: "CostModelConfig \<Rightarrow> real \<Rightarrow> CostModelConfig" where
  "scale_equipment cfg k =
     cfg\<lparr>equipmentCatalog :=
           (equipmentCatalog cfg)
             \<lparr>items := map (\<lambda>item. item\<lparr>baseCost := baseCost item * k\<rparr>)
                        (items (equipmentCatalog cfg))\<rparr>\<rparr>"

text \<open>
  A configuration is sound when its conversion rates, availabilities and penetration
  rates are positive, every equipment item has a positive useful life and a salvage
  value of at most 100 percent, no role has a zero utilization factor, and the
  discount rate is above -1.
\<close>

definition sound_config :: "CostModelConfig \<Rightarrow> bool" where
  "sound_config cfg =
     (let t = rates (fxRates cfg); av = availability (projectParameters cfg)
      in 0 < CAD t \<and> 0 < EUR t \<and> 0 < AUD t \<and> 0 < GBP t
         \<and> 0 < planned av \<and> 0 < mechanical av \<and> 0 < operational av
         \<and> (\<forall>pr \<in> set (penetrationRate (projectParameters cfg)). 0 < metersPerHour pr)
         \<and> (\<forall>item \<in> set (items (equipmentCatalog cfg)).
               0 < usefulLifeYears item \<and> salvageValue item \<le> 100)
         \<and> (\<forall>role \<in> set (roles (laborCatalog cfg)). utilizationFactor role \<noteq> 0)
         \<and> - 1 < discountRate (aggregatorSettings cfg))"

text \<open>
  A block is sound when a penetration rate applies to it, its tonnage is positive and
  its strike length and width are not negative.
\<close>

definition sound_block :: "CostModelConfig \<Rightarrow> BlockCharacteristics \<Rightarrow> bool" where
  "sound_block cfg block =
     (applicable_penRate cfg block \<noteq> None \<and> 0 < tonnage block
      \<and> 0 \<le> strikeLength block \<and> 0 \<le> width block)"

text \<open>
  One cost result is cheaper than another when the four totals are finite, its CAPEX
  total is strictly smaller and its OPEX total is not larger; two maps of block costs
  are related when they cost the same identifiers, each one cheaper in the first map.
\<close>

definition cheaper :: "BlockCostResult \<Rightarrow> BlockCostResult \<Rightarrow> bool" where
  "cheaper r r' =
     (\<exists>cx ox cy oy. CapexComponent.total (capexComponent r) = Num cx
        \<and> OpexComponent.total (opexComponent r) = Num ox
        \<and> CapexComponent.total (capexComponent r') = Num cy
        \<and> OpexComponent.total (opexComponent r') = Num oy
        \<and> cx < cy \<and> ox \<le> oy)"

definition costs_rel ::
  "(string \<rightharpoonup> BlockCostResult) \<Rightarrow> (string \<rightharpoonup> BlockCostResult) \<Rightarrow> bool" where
  "costs_rel bc bc' =
     (\<forall>k. case (bc k, bc' k) of
             (None, None) \<Rightarrow> True
           | (Some r, Some r') \<Rightarrow> cheaper r r'
           | _ \<Rightarrow> False)"

text \<open>
  Of two cash-flow periods, the second nets no more than the first, or strictly less;
  both net cash flows are finite.
\<close>

definition net_le :: "ProjectCashflow \<Rightarrow> ProjectCashflow \<Rightarrow> bool" where
  "net_le cf cf' = (\<exists>n n'. netCashflow cf = Num n \<and> netCashflow cf' = Num n' \<and> n' \<le> n)"

definition net_less :: "ProjectCashflow \<Rightarrow> ProjectCashflow \<Rightarrow> bool" where
  "net_less cf cf' = (\<exists>n n'. netCashflow cf = Num n \<and> netCashflow cf' = Num n' \<and> n' < n)"

text \<open>The year and month of every period of the project horizon, in order.\<close>

definition horizon :: "CostModelConfig \<Rightarrow> (int \<times> int) list" where
  "horizon cfg =
     concat (map (\<lambda>y. map (Pair y) [1..12])
       [startYear (lifeOfMine (projectParameters cfg))
        ..startYear (lifeOfMine (projectParameters cfg)) + years (lifeOfMine (projectParameters cfg))])"

text \<open>A schedule entry names a block of the list and a period of the horizon.\<close>

definition effective_entry ::
  "CostModelConfig \<Rightarrow> BlockCharacteristics list \<Rightarrow> BlockSchedule \<Rightarrow> bool" where
  "effective_entry cfg blocks s =
     (BlockSchedule.blockId s \<in> BlockCharacteristics.blockId ` set blocks
      \<and> (\<exists>(y, m) \<in> set (horizon cfg). BlockSchedule.period s = period_name y m))"

text \<open>
  The NPV of the full projection, the NPV that the sensitivity analysis reports for one
  variation, and the comparison \<open>a < b\<close> of two such values.
\<close>

definition projection_npv ::
  "(string \<Rightarrow> jsdate) \<Rightarrow> CostModelConfig \<Rightarrow> jsdate \<Rightarrow> BlockCharacteristics list
     \<Rightarrow> BlockSchedule list \<Rightarrow> jsnum option" where
  "projection_npv parseDate cfg now blocks schedule =
     (case runFullProjection parseDate cfg now blocks schedule of
        Inl e \<Rightarrow> None
      | Inr (blockCosts, cashflows, summary) \<Rightarrow> Some (npv summary))"

definition sensitivity_npv ::
  "(string \<Rightarrow> jsdate) \<Rightarrow> CostModelConfig \<Rightarrow> jsdate \<Rightarrow> BlockCharacteristics list
     \<Rightarrow> BlockSchedule list \<Rightarrow> string \<Rightarrow> real \<Rightarrow> jsnum option" where
  "sensitivity_npv parseDate cfg now blocks schedule variable variation =
     (case runSensitivity parseDate cfg now blocks schedule variable [variation] of
        Inr [(v, n, i)] \<Rightarrow> Some n
      | _ \<Rightarrow> None)"

definition npv_less :: "jsnum option \<Rightarrow> jsnum option \<Rightarrow> bool" where
  "npv_less a b = (case (a, b) of (Some x, Some y) \<Rightarrow> js_lt x y | _ \<Rightarrow> False)"

text \<open>
  A schedule dominated by the cost of equipment, in the words of the specification:
  the equipment catalog is not empty, every base cost is positive, and some scheduled
  block has a positive strike length and a positive width.
\<close>

definition equipment_cost_dominated ::
  "CostModelConfig \<Rightarrow> BlockCharacteristics list \<Rightarrow> BlockSchedule list \<Rightarrow> bool" where
  "equipment_cost_dominated cfg blocks schedule =
     (items (equipmentCatalog cfg) \<noteq> []
      \<and> (\<forall>item \<in> set (items (equipmentCatalog cfg)). 0 < baseCost item)
      \<and> (\<exists>s \<in> set schedule. \<exists>b \<in> set blocks.
            BlockCharacteristics.blockId b = BlockSchedule.blockId s
            \<and> 0 < strikeLength b \<and> 0 < width b))"

section \<open>Verified properties\<close>

subsection \<open>Currency conversion\<close>

lemma rate_or_one_Num: "\<exists>r. r \<noteq> 0 \<and> rate_or_one t k = Num r"
  by (simp add: rate_or_one_def js_or_def split: option.split)

text \<open>
  C8: for any two configured currencies \<open>a\<close> and \<open>b\<close>, the conversion rates there and
  back multiply to 1, the rate from a currency to itself is 1, and when neither side
  is USD the rate is the rate from \<open>a\<close> to USD times the rate from USD to \<open>b\<close>.
\<close>

theorem fx_rates_reciprocal_and_cross:
  assumes "a \<in> set configured_currencies" and "b \<in> set configured_currencies"
  shows "js_mul (getFXRate cfg a b) (getFXRate cfg b a) = Num 1
       \<and> getFXRate cfg a a = Num 1
       \<and> (a \<noteq> ''USD'' \<and> b \<noteq> ''USD'' \<longrightarrow>
            getFXRate cfg a b = js_mul (getFXRate cfg a ''USD'') (getFXRate cfg ''USD'' b))"
proof -
  obtain ra where ra: "ra \<noteq> 0" "rate_or_one (rates (fxRates cfg)) a = Num ra"
    using rate_or_one_Num by blast
  obtain rb where rb: "rb \<noteq> 0" "rate_or_one (rates (fxRates cfg)) b = Num rb"
    using rate_or_one_Num by blast
  show ?thesis
    using ra rb by (auto simp: getFXRate_def Let_def)
qed

theorem fx_rates_reciprocal_and_cross_witness:
  "''CAD'' \<in> set configured_currencies \<and> ''EUR'' \<in> set configured_currencies
   \<and> js_mul (getFXRate example_config ''CAD'' ''EUR'')
        (getFXRate example_config ''EUR'' ''CAD'') = Num 1
   \<and> getFXRate example_config ''CAD'' ''EUR'' = Num (0.92 / 1.36)
   \<and> getFXRate example_config ''CAD'' ''EUR''
       = js_mul (getFXRate example_config ''CAD'' ''USD'')
           (getFXRate example_config ''USD'' ''EUR'')"
  using fx_rates_reciprocal_and_cross [of "''CAD''" "''EUR''" example_config]
  by (simp add: configured_currencies_def getFXRate_def rate_or_one_def rate_lookup_def
      js_or_def example_config_def)

subsection \<open>Margin lookup\<close>

lemma margin_rule_matches_closed:
  "margin_rule_matches P c d r = (costCategory r = c \<and> window_closed P r d)"
  by (cases "P (validFrom r)"; cases d; cases "validity_end P r")
     (auto simp: margin_rule_matches_def window_closed_def validity_end_def Let_def
           split: option.splits if_splits)

text \<open>
  C4, as the code has it: \<open>getMargin\<close> returns the margin of the first rule of the
  requested category whose closed validity window, from \<open>validFrom\<close> to \<open>validTo\<close> with
  both ends included, contains the date, and 0 when no rule matches. A rule without
  \<open>validTo\<close> is valid until 2099-12-31.
\<close>

theorem getMargin_first_match_closed_window:
  "getMargin P cfg category date = first_match_margin (window_closed P) cfg category date"
proof -
  have "margin_rule_matches P category date
          = (\<lambda>r. costCategory r = category \<and> window_closed P r date)"
    by (rule ext) (rule margin_rule_matches_closed)
  then show ?thesis
    by (simp add: getMargin_def first_match_margin_def js_or_def split: option.split)
qed

text \<open>
  C4, as stated, fails on the last instant of a window: on 2024-12-31, the \<open>validTo\<close> of
  the sample labor rule, \<open>getMargin\<close> returns the rule's 15 where the half-open window
  gives 0.
\<close>

theorem getMargin_half_open_counterexample:
  "getMargin known_dates example_config ''labor'' (known_dates ''2024-12-31'') = Num 15
   \<and> first_match_margin (window_half_open known_dates) example_config ''labor''
        (known_dates ''2024-12-31'') = Num 0"
  by (simp add: getMargin_def first_match_margin_def margin_rule_matches_def
      window_half_open_def validity_end_def known_dates_def example_config_def js_or_def)

subsection \<open>Risk premiums\<close>

lemma risk_loop_sum:
  "risk_loop block ps (Num a, ap) =
     (Num (a + sum_list (map premiumPercent (filter (premium_applies block) ps))),
      ap @ map (\<lambda>p. (attribute p, Num (premiumPercent p))) (filter (premium_applies block) ps))"
  by (induction ps arbitrary: a ap) (simp_all add: premium_applies_def add.assoc)

lemma example_premiums_apply:
  "premium_applies example_block (riskPremiums example_config ! 0)
   \<and> premium_applies example_block (riskPremiums example_config ! 1)"
  by (simp add: premium_applies_def example_config_def example_block_def
      evaluateCondition_def match_here_def after_operator_def dot_plus_def isOperatorChar_def
      isWhiteSpace_def isLineTerminator_def threshold_of_def parseFloat_def decimal_prefix_def
      exponent_part_def isDigit_def digits_value_def block_attribute_def js_gt_def)

text \<open>
  C6: the premium returned by \<open>calculateRiskPremium\<close> is the sum of the percentages of
  exactly the rules whose condition holds of the block, each rule entering once and
  none excluding another, and the applied premiums are those rules in order. Two
  matching rules of 5 and 3 percent give 8 percent.
\<close>

theorem calculateRiskPremium_additive:
  "calculateRiskPremium cfg block =
     (Num (sum_list (map premiumPercent (filter (premium_applies block) (riskPremiums cfg)))),
      map (\<lambda>p. (attribute p, Num (premiumPercent p)))
        (filter (premium_applies block) (riskPremiums cfg)))
   \<and> (riskPremiums cfg = [p1, p2] \<and> premium_applies block p1 \<and> premium_applies block p2
        \<and> premiumPercent p1 = 5 \<and> premiumPercent p2 = 3
      \<longrightarrow> fst (calculateRiskPremium cfg block) = Num 8)"
  by (simp add: calculateRiskPremium_def risk_loop_sum)

theorem calculateRiskPremium_additive_witness:
  "premium_applies example_block (riskPremiums example_config ! 0)
   \<and> premium_applies example_block (riskPremiums example_config ! 1)
   \<and> premiumPercent (riskPremiums example_config ! 0) = 5
   \<and> premiumPercent (riskPremiums example_config ! 1) = 3
   \<and> fst (calculateRiskPremium example_config example_block) = Num 8"
  using calculateRiskPremium_additive [of example_config example_block
      "riskPremiums example_config ! 0" "riskPremiums example_config ! 1"]
    example_premiums_apply
  by (simp add: example_config_def)

subsection \<open>Arithmetic of the special values\<close>

lemma js_add_NaN [simp]: "js_add a NaN = NaN" "js_add NaN a = NaN"
  by (cases a; simp)+

lemma js_mul_NaN [simp]: "js_mul a NaN = NaN" "js_mul NaN a = NaN"
  by (cases a; simp)+

lemma js_div_NaN [simp]: "js_div a NaN = NaN" "js_div NaN a = NaN"
  by (cases a; simp)+

lemma js_add_zero_left [simp]: "js_add (Num 0) a = a"
  by (cases a) simp_all

lemma js_mul_div_zero [simp]: "js_mul (js_div a (Num 0)) (Num 0) = NaN"
  by (cases a) (simp_all add: signed_inf_def)

lemma and_then_Inr [simp]: "and_then (Inr x) f = f x"
  by (simp add: and_then_def)

lemma and_then_Inl [simp]: "and_then (Inl e) f = Inl e"
  by (simp add: and_then_def)

lemma isl_error: "isl (m :: error + 'a) \<Longrightarrow> m = Inl TypeError"
  by (cases m) (auto intro: error.exhaust)

subsection \<open>When a block can be costed\<close>

lemma find_rock_type_None:
  "find (\<lambda>r. toLowerCase (PenetrationRate.rockType r)
               = toLowerCase (BlockCharacteristics.rockType block))
     (penetrationRate (projectParameters cfg)) = None
   \<longleftrightarrow> \<not> rock_type_matches cfg block"
  by (auto simp: find_None_iff rock_type_matches_def)

lemma applicable_penRate_None_iff:
  "applicable_penRate cfg block = None \<longleftrightarrow>
     \<not> rock_type_matches cfg block \<and> length (penetrationRate (projectParameters cfg)) < 2"
  using find_rock_type_None [of block cfg]
  by (auto simp: applicable_penRate_def Let_def split: option.splits)

lemma applicable_penRate_fallback:
  "\<not> rock_type_matches cfg block \<Longrightarrow> 2 \<le> length (penetrationRate (projectParameters cfg))
   \<Longrightarrow> applicable_penRate cfg block = Some (penetrationRate (projectParameters cfg) ! 1)"
  using find_rock_type_None [of block cfg]
  by (auto simp: applicable_penRate_def Let_def split: option.splits)

lemma estimateMiningHours_isl:
  "isl (estimateMiningHours cfg block) \<longleftrightarrow> applicable_penRate cfg block = None"
  by (simp add: estimateMiningHours_def Let_def split: option.splits)

lemma calculateLaborCost_isl:
  "isl (calculateLaborCost cfg block) \<longleftrightarrow> applicable_penRate cfg block = None"
  by (simp add: calculateLaborCost_def Let_def split: option.splits)

lemma costed_parts:
  assumes "applicable_penRate cfg block \<noteq> None"
  obtains l e where "calculateLaborCost cfg block = Inr l"
    and "estimateMiningHours cfg block = Inr e"
  using assms calculateLaborCost_isl [of cfg block] estimateMiningHours_isl [of cfg block]
  by (cases "calculateLaborCost cfg block"; cases "estimateMiningHours cfg block") auto

lemmas block_cost_defs = calculateBlockCost_def calculateEquipmentCost_def
  calculateEnergyCost_def calculateMaintenanceCost_def calculateOverhead_def

lemma calculateBlockCost_isl:
  "isl (calculateBlockCost P cfg now block) \<longleftrightarrow> applicable_penRate cfg block = None"
proof (cases "applicable_penRate cfg block")
  case None
  then show ?thesis
    by (simp add: calculateBlockCost_def calculateLaborCost_def)
next
  case (Some pr)
  then obtain l e where "calculateLaborCost cfg block = Inr l"
    and "estimateMiningHours cfg block = Inr e"
    using costed_parts [of cfg block] by auto
  then show ?thesis
    using Some by (simp add: block_cost_defs Let_def split: prod.splits)
qed

lemma example_block_rate:
  "applicable_penRate example_config example_block
     = Some \<lparr>metersPerHour = 0.8, PenetrationRate.rockType = ''hard''\<rparr>"
  by code_simp

lemma zero_tonnage_block_rate: "applicable_penRate example_config zero_tonnage_block \<noteq> None"
  by code_simp

text \<open>
  C10: when no configured penetration rate has the rock type of the block (case
  ignored), the labor cost and the mining hours are computed from the second entry of
  the list. With no matching entry and fewer than two entries, the labor cost, the
  mining hours and \<open>calculateBlockCost\<close> fault with a \<open>TypeError\<close>; with a matching
  entry, or with at least two entries, \<open>calculateBlockCost\<close> returns a result.
\<close>

theorem penetration_rate_fallback:
  "(\<not> rock_type_matches cfg block \<and> length (penetrationRate (projectParameters cfg)) < 2
      \<longrightarrow> calculateBlockCost P cfg now block = Inl TypeError
        \<and> calculateLaborCost cfg block = Inl TypeError
        \<and> estimateMiningHours cfg block = Inl TypeError)
   \<and> (rock_type_matches cfg block \<or> 2 \<le> length (penetrationRate (projectParameters cfg))
      \<longrightarrow> \<not> isl (calculateBlockCost P cfg now block))
   \<and> (\<not> rock_type_matches cfg block \<and> 2 \<le> length (penetrationRate (projectParameters cfg))
      \<longrightarrow> applicable_penRate cfg block = Some (penetrationRate (projectParameters cfg) ! 1))"
  using calculateBlockCost_isl [of P cfg now block] applicable_penRate_None_iff [of cfg block]
    applicable_penRate_fallback [of cfg block]
    isl_error [of "calculateBlockCost P cfg now block"]
    calculateLaborCost_isl [of cfg block] isl_error [of "calculateLaborCost cfg block"]
    estimateMiningHours_isl [of cfg block] isl_error [of "estimateMiningHours cfg block"]
  by auto

theorem penetration_rate_fallback_witness:
  "(\<not> rock_type_matches single_rate_config granite_block
      \<and> length (penetrationRate (projectParameters single_rate_config)) < 2
      \<and> calculateBlockCost known_dates single_rate_config sample_now granite_block = Inl TypeError)
   \<and> (rock_type_matches example_config example_block
      \<and> \<not> isl (calculateBlockCost known_dates example_config sample_now example_block))
   \<and> (\<not> rock_type_matches example_config granite_block
      \<and> 2 \<le> length (penetrationRate (projectParameters example_config))
      \<and> \<not> isl (calculateBlockCost known_dates example_config sample_now granite_block)
      \<and> applicable_penRate example_config granite_block
          = Some \<lparr>metersPerHour = 1.5, PenetrationRate.rockType = ''medium''\<rparr>)"
proof -
  have a: "\<not> rock_type_matches single_rate_config granite_block
      \<and> length (penetrationRate (projectParameters single_rate_config)) < 2"
    by code_simp
  have b: "rock_type_matches example_config example_block"
    by code_simp
  have c: "\<not> rock_type_matches example_config granite_block
      \<and> 2 \<le> length (penetrationRate (projectParameters example_config))"
    by code_simp
  show ?thesis
    using a b c
      penetration_rate_fallback [of single_rate_config granite_block known_dates sample_now]
      penetration_rate_fallback [of example_config example_block known_dates sample_now]
      penetration_rate_fallback [of example_config granite_block known_dates sample_now]
    by (simp add: example_config_def)
qed

subsection \<open>No validation of tonnage and geometry\<close>

lemma zero_tonnage_capex:
  "tonnage block = 0 \<Longrightarrow> equipmentDepreciation (calculateCAPEXAllocation cfg block) = NaN"
  by (simp add: calculateCAPEXAllocation_def Let_def)

lemma zero_tonnage_grandTotal:
  assumes "calculateBlockCost P cfg now block = Inr r" and "tonnage block = 0"
  shows "grandTotal r = NaN \<and> BlockCostResult.costPerTonne r = NaN"
proof -
  have "applicable_penRate cfg block \<noteq> None"
    using assms(1) calculateBlockCost_isl [of P cfg now block] by auto
  then obtain l e where "calculateLaborCost cfg block = Inr l"
    and "estimateMiningHours cfg block = Inr e"
    using costed_parts [of cfg block] by auto
  then show ?thesis
    using assms zero_tonnage_capex [of block cfg]
    by (auto simp: block_cost_defs Let_def split: prod.splits)
qed

text \<open>
  C1, as the code has it: \<open>calculateBlockCost\<close> validates neither tonnage nor geometry.
  For every block to which a penetration rate applies, whatever its tonnage and
  geometry, it returns a cost result and no rejection; when the tonnage is zero, the
  grand total and the cost per tonne of that result are NaN.
\<close>

theorem calculateBlockCost_no_validation:
  assumes "applicable_penRate cfg block \<noteq> None"
  shows "\<not> isl (calculateBlockCost P cfg now block)
       \<and> (tonnage block = 0 \<longrightarrow>
            grandTotal (projr (calculateBlockCost P cfg now block)) = NaN
          \<and> BlockCostResult.costPerTonne (projr (calculateBlockCost P cfg now block)) = NaN)"
proof -
  have ok: "\<not> isl (calculateBlockCost P cfg now block)"
    using assms by (simp add: calculateBlockCost_isl)
  then have "calculateBlockCost P cfg now block = Inr (projr (calculateBlockCost P cfg now block))"
    by simp
  then show ?thesis
    using ok zero_tonnage_grandTotal by blast
qed

theorem calculateBlockCost_no_validation_witness:
  "applicable_penRate example_config zero_tonnage_block \<noteq> None
   \<and> tonnage zero_tonnage_block = 0
   \<and> \<not> isl (calculateBlockCost known_dates example_config sample_now zero_tonnage_block)
   \<and> grandTotal (projr (calculateBlockCost known_dates example_config sample_now
        zero_tonnage_block)) = NaN"
  using calculateBlockCost_no_validation [OF zero_tonnage_block_rate, of known_dates sample_now]
    zero_tonnage_block_rate
  by (simp add: zero_tonnage_block_def example_block_def)

text \<open>
  C1, as stated, fails on a block of tonnage 0: the sample block without tonnage is not
  rejected, and the cost result that is returned holds non-finite values.
\<close>

theorem calculateBlockCost_zero_tonnage_counterexample:
  "tonnage zero_tonnage_block \<le> 0
   \<and> \<not> is_rejection (calculateBlockCost known_dates example_config sample_now zero_tonnage_block)
   \<and> has_non_finite (calculateBlockCost known_dates example_config sample_now zero_tonnage_block)"
proof -
  have nv: "\<not> isl (calculateBlockCost known_dates example_config sample_now zero_tonnage_block)"
    by (simp add: calculateBlockCost_isl zero_tonnage_block_rate)
  then obtain r where
    r: "calculateBlockCost known_dates example_config sample_now zero_tonnage_block = Inr r"
    by (cases "calculateBlockCost known_dates example_config sample_now zero_tonnage_block") auto
  have t: "tonnage zero_tonnage_block = 0"
    by (simp add: zero_tonnage_block_def)
  have "grandTotal r = NaN"
    using zero_tonnage_grandTotal [OF r t] by simp
  then show ?thesis
    using nv r t by (simp add: is_rejection_def has_non_finite_def)
qed

subsection \<open>Assembly of the grand total\<close>

lemma amounts_sum_premiums:
  "foldl (\<lambda>s m. js_add s (snd m)) (Num a) (map (\<lambda>p. (attribute p, Num (premiumPercent p))) ps)
     = Num (a + sum_list (map premiumPercent ps))"
  by (induction ps arbitrary: a) (simp_all add: add.assoc)

lemma riskPremium_is_amounts_sum:
  "fst (calculateRiskPremium cfg block) = amounts_sum (snd (calculateRiskPremium cfg block))"
  by (simp add: calculateRiskPremium_def risk_loop_sum amounts_sum_def amounts_sum_premiums)

lemma example_risk_premium:
  "calculateRiskPremium example_config example_block
     = (Num 8, [(''depth'', Num 5), (''rock_hardness'', Num 3)])"
  using example_premiums_apply
  by (simp add: calculateRiskPremium_def risk_loop_sum example_config_def)

lemma example_margins:
  "getMargin known_dates example_config ''labor'' sample_now = Num 15"
  "getMargin known_dates example_config ''equipment'' sample_now = Num 0"
  by (simp_all add: getMargin_def margin_rule_matches_def known_dates_def example_config_def
      sample_now_def js_or_def)

lemma example_labor_cost:
  "calculateLaborCost example_config example_block = Inr (Num (1367187500 / 720613))"
  by code_simp

lemma example_energy_cost:
  "calculateEnergyCost example_config example_block = Inr (Num (15000000 / 42389))"
  by code_simp

lemma example_maintenance_cost:
  "calculateMaintenanceCost example_config example_block = Inr (Num (31250000 / 127167))"
  by code_simp

lemma example_overhead:
  "calculateOverhead example_config example_block = Inr (Num (290078125 / 720613))"
  by code_simp

lemma example_capex:
  "calculateCAPEXAllocation example_config example_block
     = \<lparr>equipmentDepreciation = Num 1000, infrastructureAllocation = Num 1000,
        CapexComponent.total = Num 2000\<rparr>"
  by (simp add: calculateCAPEXAllocation_def example_config_def example_block_def Let_def)

lemma example_consumables: "calculateConsumablesCost example_block = Num 5000"
  by (simp add: calculateConsumablesCost_def example_block_def)

text \<open>
  C5: in every cost result of \<open>calculateBlockCost\<close>, the grand total is the subtotal
  plus the risk, margin and discount adjustments plus the contingency; the subtotal is
  the OPEX total plus the CAPEX total, whose parts are the costs computed for the block;
  each adjustment and the contingency is a percentage of that same subtotal. The
  percentages are those of the policies: the premiums recorded and applied are the ones
  that \<open>calculateRiskPremium\<close> returns for the block, the margins are the labor margin
  and the equipment margin that \<open>getMargin\<close> returns at the clock reading, each
  recorded when it is not zero, the contingency percentage is the configured one, and
  no discount is applied. The cost per tonne is the grand total divided by the tonnage,
  and the cost per meter is the grand total divided by the strike length, or by 1 when
  the strike length is zero.
\<close>

theorem calculateBlockCost_assembly:
  assumes "calculateBlockCost P cfg now block = Inr r"
  shows "grandTotal r =
           js_add (js_add (js_add (js_add (subtotal r) (riskAdjustment_of r))
             (marginAdjustment_of r)) (discountAdjustment_of r)) (contingency r)
       \<and> subtotal r = js_add (OpexComponent.total (opexComponent r))
                        (CapexComponent.total (capexComponent r))
       \<and> OpexComponent.total (opexComponent r) =
           js_add (js_add (js_add (js_add (OpexComponent.labor (opexComponent r))
             (consumables (opexComponent r))) (OpexComponent.energy (opexComponent r)))
             (OpexComponent.maintenance (opexComponent r)))
             (OpexComponent.overhead (opexComponent r))
       \<and> CapexComponent.total (capexComponent r) =
           js_add (equipmentDepreciation (capexComponent r))
             (infrastructureAllocation (capexComponent r))
       \<and> Inr (OpexComponent.labor (opexComponent r)) = calculateLaborCost cfg block
       \<and> consumables (opexComponent r) = calculateConsumablesCost block
       \<and> Inr (OpexComponent.energy (opexComponent r)) = calculateEnergyCost cfg block
       \<and> Inr (OpexComponent.maintenance (opexComponent r)) = calculateMaintenanceCost cfg block
       \<and> Inr (OpexComponent.overhead (opexComponent r)) = calculateOverhead cfg block
       \<and> capexComponent r = calculateCAPEXAllocation cfg block
       \<and> appliedPremiums r = snd (calculateRiskPremium cfg block)
       \<and> riskAdjustment_of r =
           js_mul (subtotal r) (js_div (fst (calculateRiskPremium cfg block)) (Num 100))
       \<and> appliedMargins r =
           push_margin ''labor'' (getMargin P cfg ''labor'' now)
           @ push_margin ''equipment'' (getMargin P cfg ''equipment'' now)
       \<and> appliedDiscounts r = []
       \<and> contingency r =
           js_mul (subtotal r) (js_div (Num (contingencyPercent (calculatorSettings cfg))) (Num 100))
       \<and> discountAdjustment_of r = Num 0
       \<and> BlockCostResult.costPerTonne r = js_div (grandTotal r) (Num (tonnage block))
       \<and> BlockCostResult.costPerMeter r =
           js_div (grandTotal r) (Num (if strikeLength block = 0 then 1 else strikeLength block))"
proof -
  obtain rp ps where rp: "calculateRiskPremium cfg block = (rp, ps)"
    by (cases "calculateRiskPremium cfg block")
  have rp_sum: "rp = amounts_sum ps"
    using riskPremium_is_amounts_sum [of cfg block] by (simp add: rp)
  have "applicable_penRate cfg block \<noteq> None"
    using assms calculateBlockCost_isl [of P cfg now block] by auto
  then obtain l e where "calculateLaborCost cfg block = Inr l"
    and "estimateMiningHours cfg block = Inr e"
    using costed_parts [of cfg block] by auto
  then show ?thesis
    using assms
    by (auto simp: block_cost_defs calculateCAPEXAllocation_def rp rp_sum Let_def
        riskAdjustment_of_def marginAdjustment_of_def discountAdjustment_of_def js_or_def)
qed

text \<open>
  The sample block on 2024-06-15: premiums of 5 and 3 percent, a labor margin of 15
  percent and a contingency of 10 percent on a subtotal of about 9899.40 give a grand
  total of 1.33 times the subtotal, about 13166.21.
\<close>

theorem calculateBlockCost_assembly_witness:
  "calculateBlockCost known_dates example_config sample_now example_block
     = Inr (projr (calculateBlockCost known_dates example_config sample_now example_block))
   \<and> appliedPremiums (projr (calculateBlockCost known_dates example_config sample_now
        example_block)) = [(''depth'', Num 5), (''rock_hardness'', Num 3)]
   \<and> appliedMargins (projr (calculateBlockCost known_dates example_config sample_now
        example_block)) = [(''labor'', Num 15)]
   \<and> subtotal (projr (calculateBlockCost known_dates example_config sample_now
        example_block)) = Num (21400919875 / 2161839)
   \<and> riskAdjustment_of (projr (calculateBlockCost known_dates example_config sample_now
        example_block)) = Num (21400919875 / 2161839 * (8 / 100))
   \<and> marginAdjustment_of (projr (calculateBlockCost known_dates example_config sample_now
        example_block)) = Num (21400919875 / 2161839 * (15 / 100))
   \<and> contingency (projr (calculateBlockCost known_dates example_config sample_now
        example_block)) = Num (21400919875 / 2161839 * (10 / 100))
   \<and> grandTotal (projr (calculateBlockCost known_dates example_config sample_now
        example_block)) = Num (21400919875 / 2161839 * (133 / 100))
   \<and> BlockCostResult.costPerTonne
        (projr (calculateBlockCost known_dates example_config sample_now example_block))
       = Num (21400919875 / 2161839 * (133 / 100) / 1000)
   \<and> BlockCostResult.costPerMeter
        (projr (calculateBlockCost known_dates example_config sample_now example_block))
       = Num (21400919875 / 2161839 * (133 / 100) / 10)"
proof -
  define r where
    "r = projr (calculateBlockCost known_dates example_config sample_now example_block)"
  have "\<not> isl (calculateBlockCost known_dates example_config sample_now example_block)"
    by (simp add: calculateBlockCost_isl example_block_rate)
  then have ok: "calculateBlockCost known_dates example_config sample_now example_block = Inr r"
    by (simp add: r_def)
  have settings: "contingencyPercent (calculatorSettings example_config) = 10"
    by (simp add: example_config_def)
  have geometry: "tonnage example_block = 1000" "strikeLength example_block = 10"
    by (simp_all add: example_block_def)
  show ?thesis
    unfolding r_def [symmetric]
    using calculateBlockCost_assembly [OF ok] ok
    by (simp add: example_risk_premium example_margins example_labor_cost example_energy_cost
        example_maintenance_cost example_overhead example_capex example_consumables
        push_margin_def marginAdjustment_of_def settings geometry)
qed

subsection \<open>Cash flows\<close>

lemma accumulate_length [simp]: "length (accumulate c cfs) = length cfs"
  by (induction cfs arbitrary: c) (simp_all add: Let_def)

lemma accumulate_net:
  "i < length cfs \<Longrightarrow> netCashflow (accumulate c cfs ! i) = netCashflow (cfs ! i)"
proof (induction cfs arbitrary: c i)
  case Nil
  then show ?case by simp
next
  case (Cons cf cfs)
  then show ?case by (cases i) (simp_all add: Let_def)
qed

lemma accumulate_map_net: "map netCashflow (accumulate c cfs) = map netCashflow cfs"
  by (induction cfs arbitrary: c) (simp_all add: Let_def)

lemma block_costs_loop_isl:
  "isl (block_costs_loop P cfg now blocks m)
     \<longleftrightarrow> (\<exists>b \<in> set blocks. applicable_penRate cfg b = None)"
proof (induction blocks arbitrary: m)
  case Nil
  then show ?case by simp
next
  case (Cons b bs)
  show ?case
  proof (cases "calculateBlockCost P cfg now b")
    case (Inl e)
    then show ?thesis
      using calculateBlockCost_isl [of P cfg now b] by simp
  next
    case (Inr c)
    then show ?thesis
      using calculateBlockCost_isl [of P cfg now b] Cons.IH by auto
  qed
qed

lemma generateCashflow_isl:
  "isl (generateCashflow P cfg now blocks schedule)
     \<longleftrightarrow> (\<exists>b \<in> set blocks. applicable_penRate cfg b = None)"
  using block_costs_loop_isl [of P cfg now blocks Map.empty]
  by (cases "block_costs_loop P cfg now blocks Map.empty")
     (simp_all add: generateCashflow_def Let_def)

lemma generateCashflow_Inr:
  assumes "generateCashflow P cfg now blocks schedule = Inr cfs"
  obtains blockCosts where "block_costs_loop P cfg now blocks Map.empty = Inr blockCosts"
    and "cfs = accumulate (Num 0) (raw_cashflows cfg blockCosts blocks schedule)"
  using assms
  by (cases "block_costs_loop P cfg now blocks Map.empty")
     (auto simp: generateCashflow_def raw_cashflows_def Let_def)

lemma length_concat_const:
  "(\<And>x. x \<in> set xs \<Longrightarrow> length (f x) = n) \<Longrightarrow> length (concat (map f xs)) = n * length xs"
  by (induction xs) simp_all

lemma raw_cashflows_length:
  "length (raw_cashflows cfg blockCosts blocks schedule)
     = 12 * nat (years (lifeOfMine (projectParameters cfg)) + 1)"
  unfolding raw_cashflows_def
  by (subst length_concat_const [where n = 12]) simp_all

lemma generateCashflow_length:
  assumes "generateCashflow P cfg now blocks schedule = Inr cfs"
  shows "length cfs = 12 * nat (years (lifeOfMine (projectParameters cfg)) + 1)"
  using assms by (elim generateCashflow_Inr) (simp add: raw_cashflows_length)

lemma idle_period_net:
  "netCashflow (period_cashflow blockCosts blocks [] y m) = Num 0"
  by (simp add: period_cashflow_def Let_def)

lemma idle_raw_net:
  "cf \<in> set (raw_cashflows cfg blockCosts blocks []) \<Longrightarrow> netCashflow cf = Num 0"
  by (auto simp: raw_cashflows_def idle_period_net)

subsection \<open>The rate of return in the summary\<close>

lemma js_pow_positive:
  "0 < b \<Longrightarrow> \<exists>f. 0 < f \<and> js_pow (Num b) (js_div (Num (real t)) (Num 12)) = Num f"
  by simp

lemma irr_sums_zeros:
  assumes "0 < 1 + r" and "\<forall>c \<in> set cs. c = Num 0"
  shows "irr_sums (Num r) t cs (Num a, Num d) = (Num a, Num d)"
  using assms(2)
proof (induction cs arbitrary: t)
  case Nil
  then show ?case by simp
next
  case (Cons c cs)
  obtain f where f: "0 < f" "js_pow (Num (1 + r)) (js_div (Num (real t)) (Num 12)) = Num f"
    using js_pow_positive [OF assms(1)] by blast
  have "f * (1 + r) \<noteq> 0"
    using f(1) assms(1) by simp
  with Cons f show ?case
    by (simp add: Let_def js_sub_def del: js_pow.simps)
qed

lemma calculateIRR_zeros:
  assumes "\<forall>c \<in> set cs. c = Num 0"
  shows "calculateIRR cs (Num 0.1) = None"
proof -
  have "irr_sums (Num 0.1) 0 cs (Num 0, Num 0) = (Num 0, Num 0)"
    using irr_sums_zeros [of "0.1" cs 0 0 0] assms by simp
  then show ?thesis
    by (simp add: calculateIRR_def eval_nat_numeral)
qed

lemma idle_cashflows_net: "\<forall>c \<in> set (map netCashflow idle_cashflows). c = Num 0"
proof -
  have "\<not> isl (generateCashflow known_dates example_config sample_now [] [])"
    by (simp add: generateCashflow_isl)
  then have "generateCashflow known_dates example_config sample_now [] [] = Inr idle_cashflows"
    by (simp add: idle_cashflows_def)
  then obtain blockCosts where
    eq: "idle_cashflows = accumulate (Num 0) (raw_cashflows example_config blockCosts [] [])"
    by (elim generateCashflow_Inr)
  have "map netCashflow idle_cashflows
               = map netCashflow (raw_cashflows example_config blockCosts [] [])"
    by (subst eq) (rule accumulate_map_net)
  then show ?thesis
    using idle_raw_net by auto
qed

text \<open>
  C2, as the code has it: for every cash-flow series on which \<open>calculateIRR\<close> returns
  \<open>null\<close> (a derivative below the tolerance, or no convergence within 100
  iterations), the summary of \<open>generateSummary\<close> reports the IRR as the number 0.
\<close>

theorem unavailable_irr_reported_as_zero:
  assumes "calculateIRR (map netCashflow cashflows) (Num 0.1) = None"
  shows "irr (generateSummary cfg cashflows) = Num 0"
  using assms by (simp add: generateSummary_def Let_def irr_or_zero_def)

theorem unavailable_irr_reported_as_zero_witness:
  "calculateIRR (map netCashflow idle_cashflows) (Num 0.1) = None
   \<and> irr (generateSummary example_config idle_cashflows) = Num 0"
  using unavailable_irr_reported_as_zero [of idle_cashflows example_config]
    calculateIRR_zeros [OF idle_cashflows_net]
  by simp

text \<open>
  C2, as stated, fails on a project without blocks: every net cash flow is 0, the
  derivative is 0 and \<open>calculateIRR\<close> returns \<open>null\<close>, yet the summary holds the
  finite number 0 as IRR, not an absent value.
\<close>

theorem summary_irr_counterexample:
  "calculateIRR (map netCashflow idle_cashflows) (Num 0.1) = None
   \<and> is_finite (irr (generateSummary example_config idle_cashflows))
   \<and> irr (generateSummary example_config idle_cashflows) = Num 0"
  using calculateIRR_zeros [OF idle_cashflows_net]
  by (simp add: generateSummary_def Let_def irr_or_zero_def)

subsection \<open>Cumulative cash flow\<close>

lemma accumulate_first:
  "cfs \<noteq> [] \<Longrightarrow> cumulativeCashflow (accumulate c cfs ! 0) = js_add c (netCashflow (cfs ! 0))"
  by (cases cfs) (simp_all add: Let_def)

lemma accumulate_step:
  "Suc i < length cfs \<Longrightarrow>
     cumulativeCashflow (accumulate c cfs ! Suc i)
       = js_add (cumulativeCashflow (accumulate c cfs ! i)) (netCashflow (cfs ! Suc i))"
proof (induction cfs arbitrary: c i)
  case Nil
  then show ?case by simp
next
  case (Cons cf cfs)
  show ?case
  proof (cases i)
    case 0
    with Cons.prems show ?thesis
      by (cases cfs) (simp_all add: Let_def)
  next
    case (Suc j)
    with Cons show ?thesis by (simp add: Let_def)
  qed
qed

text \<open>
  C7: in every series that \<open>generateCashflow\<close> returns, the cumulative cash flow of
  the first period is its net cash flow, and the cumulative cash flow of every later
  period is that of the period before plus its own net cash flow.
\<close>

theorem cumulative_is_running_sum:
  assumes "generateCashflow P cfg now blocks schedule = Inr cfs"
  shows "(cfs \<noteq> [] \<longrightarrow> cumulativeCashflow (cfs ! 0) = netCashflow (cfs ! 0))
       \<and> (\<forall>i. 0 < i \<and> i < length cfs \<longrightarrow>
             cumulativeCashflow (cfs ! i)
               = js_add (cumulativeCashflow (cfs ! (i - 1))) (netCashflow (cfs ! i)))"
proof -
  from assms obtain raw where cfs: "cfs = accumulate (Num 0) raw"
    by (elim generateCashflow_Inr)
  have first: "cfs \<noteq> [] \<longrightarrow> cumulativeCashflow (cfs ! 0) = netCashflow (cfs ! 0)"
  proof
    assume "cfs \<noteq> []"
    then have "raw \<noteq> []" using cfs by auto
    then show "cumulativeCashflow (cfs ! 0) = netCashflow (cfs ! 0)"
      using accumulate_first [of raw "Num 0"] accumulate_net [of 0 raw "Num 0"]
      by (simp add: cfs)
  qed
  have step: "cumulativeCashflow (cfs ! i)
               = js_add (cumulativeCashflow (cfs ! (i - 1))) (netCashflow (cfs ! i))"
    if "0 < i" "i < length cfs" for i
  proof -
    from that obtain j where j: "i = Suc j" by (cases i) auto
    with that have "Suc j < length raw" by (simp add: cfs)
    then show ?thesis
      using accumulate_step [of j raw "Num 0"] accumulate_net [of "Suc j" raw "Num 0"]
      by (simp add: cfs j)
  qed
  from first step show ?thesis by blast
qed

lemma example_cashflows_Inr:
  "generateCashflow known_dates example_config sample_now [example_block] example_schedule
     = Inr example_cashflows"
proof -
  have "\<not> isl (generateCashflow known_dates example_config sample_now [example_block]
            example_schedule)"
    by (simp add: generateCashflow_isl example_block_rate)
  then show ?thesis
    by (simp add: example_cashflows_def)
qed

lemma example_cashflows_length: "length example_cashflows = 24"
  using generateCashflow_length [OF example_cashflows_Inr] by (simp add: example_config_def)

theorem cumulative_is_running_sum_witness:
  "generateCashflow known_dates example_config sample_now [example_block] example_schedule
     = Inr example_cashflows
   \<and> example_cashflows \<noteq> []
   \<and> cumulativeCashflow (example_cashflows ! 0) = netCashflow (example_cashflows ! 0)
   \<and> (0::nat) < 3 \<and> 3 < length example_cashflows
   \<and> cumulativeCashflow (example_cashflows ! 3)
       = js_add (cumulativeCashflow (example_cashflows ! 2)) (netCashflow (example_cashflows ! 3))"
proof -
  have ne: "example_cashflows \<noteq> []"
    using example_cashflows_length by auto
  have "cumulativeCashflow (example_cashflows ! 3)
       = js_add (cumulativeCashflow (example_cashflows ! (3 - 1)))
           (netCashflow (example_cashflows ! 3))"
    using cumulative_is_running_sum [OF example_cashflows_Inr] example_cashflows_length
    by simp
  then show ?thesis
    using cumulative_is_running_sum [OF example_cashflows_Inr] example_cashflows_Inr
      example_cashflows_length ne
    by simp
qed

subsection \<open>The rate of return of the two-period series\<close>

lemma root12_power:
  assumes "0 < (x::real)"
  shows "(x powr (1 / 12)) ^ 12 = x"
proof -
  have "(x powr (1 / 12)) ^ 12 = (x powr (1 / 12)) powr 12"
    by simp
  also have "\<dots> = x powr ((1 / 12) * 12)"
    by (rule powr_powr)
  also have "\<dots> = x"
    using assms by simp
  finally show ?thesis .
qed

lemma root12_bounds:
  assumes "0 < (pl::real)" and "pl ^ 12 \<le> x" and "x \<le> ph ^ 12" and "0 < ph"
  shows "pl \<le> x powr (1 / 12) \<and> x powr (1 / 12) \<le> ph"
proof -
  have x: "0 < x"
    using assms(1,2) by (meson less_le_trans zero_less_power)
  have p: "0 \<le> x powr (1 / 12)"
    by simp
  have "pl ^ 12 \<le> (x powr (1 / 12)) ^ 12" "(x powr (1 / 12)) ^ 12 \<le> ph ^ 12"
    using assms(2,3) root12_power [OF x] by simp_all
  then show ?thesis
    using p assms(1,4) by (meson less_imp_le power_le_imp_le_base pos2 power_mono_iff zero_less_numeral)
qed

lemma irr_sums_two_periods:
  assumes "0 < 1 + r"
  shows "irr_sums (Num r) 0 two_period_series (Num 0, Num 0)
           = (Num (- 1000 + 1100 / (1 + r) powr (1 / 12)),
              Num (- ((1 / 12 * 1100) / ((1 + r) powr (1 / 12) * (1 + r)))))"
  using assms by (simp add: two_period_series_def Let_def js_sub_def)

text \<open>
  One Newton step on the two-period series, from a rate \<open>r\<close> with \<open>1 + r > 0\<close>:
  the new rate is \<open>r + 12 (1 + r) (1 - 10/11 p)\<close>, where \<open>p\<close> is the twelfth root of
  \<open>1 + r\<close>.
\<close>

lemma newton_two_periods:
  assumes r: "0 < 1 + r" and p: "p = (1 + r) powr (1 / 12)"
  shows "irr_loop (Suc n) two_period_series (Num r) =
           (if \<bar>(1 / 12 * 1100) / (p * (1 + r))\<bar> < 0.0001 then None
            else if \<bar>12 * (1 + r) * (1 - 10 / 11 * p)\<bar> < 0.0001
              then Some (Num (r + 12 * (1 + r) * (1 - 10 / 11 * p)))
              else irr_loop n two_period_series (Num (r + 12 * (1 + r) * (1 - 10 / 11 * p))))"
proof -
  have p0: "0 < p"
    using r p by simp
  have d: "(1 / 12 * 1100) / (p * (1 + r)) \<noteq> 0"
    using p0 r by simp
  have new: "r - (- 1000 + 1100 / p) / (- ((1 / 12 * 1100) / (p * (1 + r))))
               = r + 12 * (1 + r) * (1 - 10 / 11 * p)"
    using p0 r by (simp add: field_simps)
  have step: "r + 12 * (1 + r) * (1 - 10 / 11 * p) - r = 12 * (1 + r) * (1 - 10 / 11 * p)"
    by simp
  show ?thesis
    using d new
    by (simp only: irr_loop.simps irr_sums_two_periods [OF r] p [symmetric] Let_def prod.case
          js_abs.simps js_lt.simps js_sub_def js_div.simps js_neg.simps js_add.simps
          abs_minus_cancel)
       (simp add: step)
qed

lemma newton_bounds:
  fixes lo hi pl ph r :: real
  assumes "lo \<le> r" "r \<le> hi" "0 < 1 + lo" "0 < pl" "pl \<le> ph" "pl ^ 12 \<le> 1 + lo"
    and "1 + hi \<le> ph ^ 12" and "ph \<le> 11 / 10"
  defines "p \<equiv> (1 + r) powr (1 / 12)"
  shows "lo + 12 * (1 + lo) * (1 - 10 / 11 * ph) \<le> r + 12 * (1 + r) * (1 - 10 / 11 * p)"
    and "r + 12 * (1 + r) * (1 - 10 / 11 * p) \<le> hi + 12 * (1 + hi) * (1 - 10 / 11 * pl)"
    and "\<not> \<bar>(1 / 12 * 1100) / (p * (1 + r))\<bar> < 0.0001"
    and "0 \<le> 12 * (1 + r) * (1 - 10 / 11 * p)"
proof -
  have r: "0 < 1 + r"
    using assms(1,3) by simp
  have "pl ^ 12 \<le> 1 + r" "1 + r \<le> ph ^ 12"
    using assms(1,2,6,7) by simp_all
  then have pb: "pl \<le> p" "p \<le> ph"
    using root12_bounds [of pl "1 + r" ph] assms(4,5) by (simp_all add: p_def)
  have p0: "0 < p"
    using pb(1) assms(4) by simp
  have a0: "0 \<le> 1 - 10 / 11 * ph" "0 \<le> 1 - 10 / 11 * p"
    using pb assms(8) by simp_all
  have "(1 + lo) * (1 - 10 / 11 * ph) \<le> (1 + r) * (1 - 10 / 11 * p)"
    using assms(1) pb(2) r a0(1) by (intro mult_mono) simp_all
  then have "12 * ((1 + lo) * (1 - 10 / 11 * ph)) \<le> 12 * ((1 + r) * (1 - 10 / 11 * p))"
    by (rule mult_left_mono) simp
  then show "lo + 12 * (1 + lo) * (1 - 10 / 11 * ph) \<le> r + 12 * (1 + r) * (1 - 10 / 11 * p)"
    using assms(1) unfolding mult.assoc by linarith
  have "(1 + r) * (1 - 10 / 11 * p) \<le> (1 + hi) * (1 - 10 / 11 * pl)"
    using assms(2) pb(1) r a0(2) by (intro mult_mono) simp_all
  then have "12 * ((1 + r) * (1 - 10 / 11 * p)) \<le> 12 * ((1 + hi) * (1 - 10 / 11 * pl))"
    by (rule mult_left_mono) simp
  then show "r + 12 * (1 + r) * (1 - 10 / 11 * p) \<le> hi + 12 * (1 + hi) * (1 - 10 / 11 * pl)"
    using assms(2) unfolding mult.assoc by linarith
  have "ph ^ 12 \<le> (11 / 10) ^ 12"
    using assms(4,5,8) by (intro power_mono) simp_all
  then have "1 + r \<le> (11 / 10) ^ 12"
    using \<open>1 + r \<le> ph ^ 12\<close> by simp
  then have "p * (1 + r) \<le> (11 / 10) * (11 / 10) ^ 12"
    using pb(2) assms(8) p0 r by (intro mult_mono) simp_all
  moreover have "(11 / 10) * (11 / 10) ^ 12 < (4::real)"
    by (simp add: power_divide)
  ultimately have "p * (1 + r) < 4"
    by (rule le_less_trans)
  show "0 \<le> 12 * (1 + r) * (1 - 10 / 11 * p)"
    using r a0(2) by simp
  have "0 < p * (1 + r)"
    using p0 r by simp
  with \<open>p * (1 + r) < 4\<close> have "0.0001 < (1 / 12 * 1100) / (p * (1 + r))"
    by (simp add: pos_less_divide_eq)
  then show "\<not> \<bar>(1 / 12 * 1100) / (p * (1 + r))\<bar> < 0.0001"
    by linarith
qed

lemma newton_continue:
  fixes lo hi pl ph lo' hi' r :: real
  assumes "lo \<le> r" "r \<le> hi" "0 < 1 + lo" "0 < pl" "pl \<le> ph" "pl ^ 12 \<le> 1 + lo"
    and "1 + hi \<le> ph ^ 12" and "ph \<le> 11 / 10"
    and "lo' \<le> lo + 12 * (1 + lo) * (1 - 10 / 11 * ph)"
    and "hi + 12 * (1 + hi) * (1 - 10 / 11 * pl) \<le> hi'"
    and "hi + 1 / 10000 \<le> lo'"
  shows "\<exists>r'. lo' \<le> r' \<and> r' \<le> hi'
           \<and> irr_loop (Suc n) two_period_series (Num r) = irr_loop n two_period_series (Num r')"
proof -
  define p where "p = (1 + r) powr (1 / 12)"
  define r' where "r' = r + 12 * (1 + r) * (1 - 10 / 11 * p)"
  have r: "0 < 1 + r"
    using assms(1,3) by simp
  note b = newton_bounds [OF assms(1-8), folded p_def]
  have lo: "lo' \<le> r'" and hi: "r' \<le> hi'"
    using b(1,2) assms(9,10) unfolding r'_def by linarith+
  have "1 / 10000 \<le> r' - r"
    using lo assms(2,11) by linarith
  then have "\<not> \<bar>12 * (1 + r) * (1 - 10 / 11 * p)\<bar> < 0.0001"
    by (simp add: r'_def)
  then have "irr_loop (Suc n) two_period_series (Num r) = irr_loop n two_period_series (Num r')"
    using b(3) unfolding r'_def
    by (subst newton_two_periods [OF r p_def]) (simp only: if_False)
  with lo hi show ?thesis by blast
qed

lemma newton_stop:
  fixes lo hi pl ph lo' hi' r :: real
  assumes "lo \<le> r" "r \<le> hi" "0 < 1 + lo" "0 < pl" "pl \<le> ph" "pl ^ 12 \<le> 1 + lo"
    and "1 + hi \<le> ph ^ 12" and "ph \<le> 11 / 10"
    and "lo' \<le> lo + 12 * (1 + lo) * (1 - 10 / 11 * ph)"
    and "hi + 12 * (1 + hi) * (1 - 10 / 11 * pl) \<le> hi'"
    and "lo \<le> lo'" and "hi' < lo + 1 / 10000"
  shows "\<exists>r'. lo' \<le> r' \<and> r' \<le> hi'
           \<and> irr_loop (Suc n) two_period_series (Num r) = Some (Num r')"
proof -
  define p where "p = (1 + r) powr (1 / 12)"
  define r' where "r' = r + 12 * (1 + r) * (1 - 10 / 11 * p)"
  have r: "0 < 1 + r"
    using assms(1,3) by simp
  note b = newton_bounds [OF assms(1-8), folded p_def]
  have lo: "lo' \<le> r'" and hi: "r' \<le> hi'"
    using b(1,2) assms(9,10) unfolding r'_def by linarith+
  have "r' - r < 1 / 10000"
    using hi assms(1,12) by linarith
  then have "\<bar>12 * (1 + r) * (1 - 10 / 11 * p)\<bar> < 0.0001"
    using b(4) by (simp add: r'_def)
  then have "irr_loop (Suc n) two_period_series (Num r) = Some (Num r')"
    using b(3) unfolding r'_def
    by (subst newton_two_periods [OF r p_def]) (simp only: if_False if_True)
  with lo hi show ?thesis by blast
qed

lemma two_period_irr_value:
  "\<exists>r. 2.138428 \<le> r \<and> r \<le> 2.138429 \<and> calculateIRR two_period_series (Num 0.1) = Some (Num r)"
proof -
  obtain r1 where r1: "1.204310314852 \<le> r1" "r1 \<le> 1.204310314864"
    and s1: "irr_loop 100 two_period_series (Num 0.1) = irr_loop 99 two_period_series (Num r1)"
    using newton_continue [of "0.1" "0.1" "0.1" "1.007974140428" "1.007974140429"
        "1.204310314852" "1.204310314864" 99]
    by (auto simp: power_divide)
  obtain r2 where r2: "1.971756513166 \<le> r2" "r2 \<le> 1.971756513231"
    and s2: "irr_loop 99 two_period_series (Num r1) = irr_loop 98 two_period_series (Num r2)"
    using newton_continue [of "1.204310314852" r1 "1.204310314864" "1.068085602841"
        "1.068085602843" "1.971756513166" "1.971756513231" 98] r1
    by (auto simp: power_divide)
  obtain r3 where r3: "2.133554019709 \<le> r3" "r3 \<le> 2.133554019876"
    and s3: "irr_loop 98 two_period_series (Num r2) = irr_loop 97 two_period_series (Num r3)"
    using newton_continue [of "1.971756513166" r2 "1.971756513231" "1.095009201446"
        "1.095009201449" "2.133554019709" "2.133554019876" 97] r2
    by (auto simp: power_divide)
  obtain r4 where r4: "2.138424273926 \<le> r4" "r4 \<le> 2.1384242743"
    and s4: "irr_loop 97 two_period_series (Num r3) = irr_loop 96 two_period_series (Num r4)"
    using newton_continue [of "2.133554019709" r3 "2.133554019876" "1.099857529187"
        "1.099857529193" "2.138424273926" "2.1384242743" 96] r3
    by (auto simp: power_divide)
  obtain r5 where r5: "2.138428376314 \<le> r5" "r5 \<le> 2.1384283771"
    and s5: "irr_loop 96 two_period_series (Num r4) = Some (Num r5)"
    using newton_stop [of "2.138424273926" r4 "2.1384242743" "1.099999880166"
        "1.099999880178" "2.138428376314" "2.1384283771" 95] r4
    by (auto simp: power_divide)
  have "calculateIRR two_period_series (Num 0.1) = Some (Num r5)"
    using s1 s2 s3 s4 s5 by (simp add: calculateIRR_def)
  with r5 show ?thesis
    by (intro exI [of _ r5]) simp
qed

text \<open>
  C3, as the code has it: the index of a period counts months, so the two cash flows of
  the series \<open>[-1000, 1100]\<close> lie one month apart, and \<open>calculateIRR\<close> returns the
  annualised rate \<open>1.1 ^ 12 - 1\<close>, about 213.84 percent, within a tolerance of 0.1
  percent. It converges in five iterations.
\<close>

theorem two_period_irr_is_annualised_monthly_rate:
  "within_tolerance (calculateIRR two_period_series (Num 0.1)) ((11 / 10) ^ 12 - 1) 0.001"
proof -
  obtain r where lo: "2.138428 \<le> r" and hi: "r \<le> 2.138429"
    and res: "calculateIRR two_period_series (Num 0.1) = Some (Num r)"
    using two_period_irr_value by blast
  have target: "(11 / 10) ^ 12 - 1 = (2.138428376721 :: real)"
    by (simp add: power_divide)
  have "r - 2.138428376721 \<le> 0.001"
    using hi by simp
  moreover have "- (r - 2.138428376721) \<le> 0.001"
    using lo by simp
  ultimately have "\<bar>r - 2.138428376721\<bar> \<le> 0.001"
    by (rule abs_leI)
  then show ?thesis
    by (simp only: within_tolerance_def res target option.case jsnum.case)
qed

text \<open>
  C3, as stated, fails: the rate that \<open>calculateIRR\<close> returns for \<open>[-1000, 1100]\<close> is
  not within 0.1 percent of 10 percent.
\<close>

theorem two_period_irr_counterexample:
  "\<not> within_tolerance (calculateIRR two_period_series (Num 0.1)) 0.1 0.001"
proof -
  obtain r where "2.138428 \<le> r" "r \<le> 2.138429"
    and "calculateIRR two_period_series (Num 0.1) = Some (Num r)"
    using two_period_irr_value by blast
  then show ?thesis
    by (simp add: within_tolerance_def)
qed

subsection \<open>Scaling the cost of equipment\<close>

lemma scale_equipment_fields [simp]:
  "fxRates (scale_equipment cfg k) = fxRates cfg"
  "projectParameters (scale_equipment cfg k) = projectParameters cfg"
  "laborCatalog (scale_equipment cfg k) = laborCatalog cfg"
  "calculatorSettings (scale_equipment cfg k) = calculatorSettings cfg"
  "aggregatorSettings (scale_equipment cfg k) = aggregatorSettings cfg"
  "marginRules (scale_equipment cfg k) = marginRules cfg"
  "riskPremiums (scale_equipment cfg k) = riskPremiums cfg"
  "version (scale_equipment cfg k) = version cfg"
  "items (equipmentCatalog (scale_equipment cfg k))
     = map (\<lambda>item. item\<lparr>baseCost := baseCost item * k\<rparr>) (items (equipmentCatalog cfg))"
  by (simp_all add: scale_equipment_def)

lemma scale_equipment_one: "scale_equipment cfg 1 = cfg"
  by (simp add: scale_equipment_def)

lemma getFXRate_scaled [simp]: "getFXRate (scale_equipment cfg k) a b = getFXRate cfg a b"
  by (simp add: getFXRate_def)

lemma applicable_penRate_scaled [simp]:
  "applicable_penRate (scale_equipment cfg k) block = applicable_penRate cfg block"
  by (simp add: applicable_penRate_def)

lemma rate_or_one_pos:
  assumes "0 < CAD t" "0 < EUR t" "0 < AUD t" "0 < GBP t"
  shows "\<exists>f. 0 < f \<and> rate_or_one t c = Num f"
  using assms by (simp add: rate_or_one_def rate_lookup_def js_or_def)

lemma getFXRate_pos:
  assumes "sound_config cfg"
  shows "\<exists>f. 0 < f \<and> getFXRate cfg a b = Num f"
proof -
  let ?t = "rates (fxRates cfg)"
  have pos: "0 < CAD ?t" "0 < EUR ?t" "0 < AUD ?t" "0 < GBP ?t"
    using assms by (simp_all add: sound_config_def Let_def)
  obtain fa where fa: "0 < fa" "rate_or_one ?t a = Num fa"
    using rate_or_one_pos [OF pos] by blast
  obtain fb where fb: "0 < fb" "rate_or_one ?t b = Num fb"
    using rate_or_one_pos [OF pos] by blast
  show ?thesis
    using fa fb by (auto simp: getFXRate_def Let_def)
qed

text \<open>The hourly cost and the hourly maintenance of an item at a unit factor.\<close>

lemma equipment_rate_scaled:
  assumes "sound_config cfg" and "item \<in> set (items (equipmentCatalog cfg))"
    and "0 < baseCost item"
  shows "\<exists>c. \<exists>ma. 0 \<le> c \<and> 0 \<le> ma \<and>
           (\<forall>k. costPerHour (equipment_rate (scale_equipment cfg k)
                               (item\<lparr>baseCost := baseCost item * k\<rparr>)) = Num (k * c)
              \<and> maintenancePerHour (equipment_rate (scale_equipment cfg k)
                               (item\<lparr>baseCost := baseCost item * k\<rparr>)) = Num (k * ma))"
proof -
  obtain f where f: "0 < f"
    "getFXRate cfg (EquipmentItem.currency item) (projectCurrency (calculatorSettings cfg)) = Num f"
    using getFXRate_pos [OF assms(1)] by blast
  have life: "0 < usefulLifeYears item" and sal: "salvageValue item \<le> 100"
    using assms by (auto simp: sound_config_def Let_def)
  define b where "b = baseCost item * f"
  define c where "c = (b * (1 - salvageValue item / 100) / usefulLifeYears item
                        + b * 0.05 + b * 0.02) / 6000"
  define ma where "ma = b * 0.05 / 6000"
  have b0: "0 < b"
    using f(1) assms(3) by (simp add: b_def)
  have "0 \<le> b * (1 - salvageValue item / 100) / usefulLifeYears item"
    using b0 life sal by simp
  then have c0: "0 \<le> c"
    using b0 by (simp add: c_def)
  have ma0: "0 \<le> ma"
    using b0 by (simp add: ma_def)
  have "costPerHour (equipment_rate (scale_equipment cfg k)
                               (item\<lparr>baseCost := baseCost item * k\<rparr>)) = Num (k * c)
              \<and> maintenancePerHour (equipment_rate (scale_equipment cfg k)
                               (item\<lparr>baseCost := baseCost item * k\<rparr>)) = Num (k * ma)" for k
    using life f(2)
    by (simp add: equipment_rate_def Let_def js_sub_def c_def ma_def b_def field_simps)
  with c0 ma0 show ?thesis by blast
qed

lemma foldl_js_add_finite:
  "(\<And>x. x \<in> set xs \<Longrightarrow> g x = Num (g' x))
   \<Longrightarrow> foldl (\<lambda>acc x. js_add acc (g x)) (Num a) xs = Num (a + sum_list (map g' xs))"
  by (induction xs arbitrary: a) (simp_all add: add.assoc)

lemma applicable_penRate_mem:
  "applicable_penRate cfg block = Some pr \<Longrightarrow> pr \<in> set (penetrationRate (projectParameters cfg))"
  by (auto simp: applicable_penRate_def Let_def find_Some_iff split: option.splits if_splits)

lemma estimateMiningHours_scaled [simp]:
  "estimateMiningHours (scale_equipment cfg k) block = estimateMiningHours cfg block"
  by (simp add: estimateMiningHours_def cong: option.case_cong)

lemma sound_availability:
  assumes "sound_config cfg"
  shows "0 < planned (availability (projectParameters cfg))"
    and "0 < mechanical (availability (projectParameters cfg))"
    and "0 < operational (availability (projectParameters cfg))"
  using assms by (simp_all add: sound_config_def Let_def)

lemma sound_penRate:
  assumes "sound_config cfg" and "applicable_penRate cfg block = Some pr"
  shows "0 < metersPerHour pr"
  using applicable_penRate_mem [OF assms(2)] assms(1) by (simp add: sound_config_def Let_def)

lemma estimateMiningHours_sound:
  assumes "sound_config cfg" and "sound_block cfg block"
  shows "\<exists>h. 0 \<le> h \<and> estimateMiningHours cfg block = Inr (Num h)"
proof -
  obtain pr where pr: "applicable_penRate cfg block = Some pr"
    using assms(2) by (auto simp: sound_block_def)
  note m = sound_penRate [OF assms(1) pr]
  note av = sound_availability [OF assms(1)]
  let ?av = "availability (projectParameters cfg)"
  have g: "0 \<le> strikeLength block * width block"
    using assms(2) by (simp add: sound_block_def)
  have "0 \<le> strikeLength block * width block / metersPerHour pr
               / (planned ?av * mechanical ?av * operational ?av)"
    using g m av by (intro divide_nonneg_pos mult_pos_pos) simp_all
  moreover have "estimateMiningHours cfg block
      = Inr (Num (strikeLength block * width block / metersPerHour pr
               / (planned ?av * mechanical ?av * operational ?av)))"
    using m av by (simp add: estimateMiningHours_def pr Let_def)
  ultimately show ?thesis by blast
qed

lemma labor_rate_scaled [simp]: "labor_rate (scale_equipment cfg k) = labor_rate cfg"
  by (rule ext) (simp add: labor_rate_def)

lemma calculateLaborCost_scaled [simp]:
  "calculateLaborCost (scale_equipment cfg k) block = calculateLaborCost cfg block"
  by (simp add: calculateLaborCost_def calculateLaborRates_def cong: option.case_cong)

lemma labor_rate_finite:
  assumes "sound_config cfg" and "role \<in> set (roles (laborCatalog cfg))"
  shows "\<exists>v. effectiveHourlyRate (labor_rate cfg role) = Num v"
proof -
  obtain f where f:
    "getFXRate cfg (LaborRole.currency role) (projectCurrency (calculatorSettings cfg)) = Num f"
    using getFXRate_pos [OF assms(1)] by blast
  have "utilizationFactor role \<noteq> 0"
    using assms by (auto simp: sound_config_def Let_def)
  then show ?thesis
    by (simp add: labor_rate_def Let_def f)
qed

lemma calculateLaborCost_sound:
  assumes "sound_config cfg" and "sound_block cfg block"
  shows "\<exists>l. calculateLaborCost cfg block = Inr (Num l)"
proof -
  obtain pr where pr: "applicable_penRate cfg block = Some pr"
    using assms(2) by (auto simp: sound_block_def)
  note m = sound_penRate [OF assms(1) pr]
  note av = sound_availability [OF assms(1)]
  let ?av = "availability (projectParameters cfg)"
  define h where "h = strikeLength block * width block / metersPerHour pr
               / (planned ?av * mechanical ?av * operational ?av)"
  obtain e where e: "\<forall>role \<in> set (roles (laborCatalog cfg)).
      effectiveHourlyRate (labor_rate cfg role) = Num (e role)"
    using labor_rate_finite [OF assms(1)] by metis
  define summand where "summand = (\<lambda>role. e role * h
      * (if includes_str (LaborRates.roleCode (labor_rate cfg role)) ''direct'' then 1.0 else 0.3))"
  have "foldl (\<lambda>acc role.
          js_add acc (js_mul (js_mul (effectiveHourlyRate (labor_rate cfg role)) (Num h))
            (if includes_str (LaborRates.roleCode (labor_rate cfg role)) ''direct''
             then Num 1.0 else Num 0.3)))
        (Num 0) (roles (laborCatalog cfg))
      = Num (0 + sum_list (map summand (roles (laborCatalog cfg))))"
    by (rule foldl_js_add_finite) (simp add: e summand_def)
  then show ?thesis
    using m av
    by (simp add: calculateLaborCost_def pr Let_def calculateLaborRates_def foldl_map h_def)
qed

lemma foldl_js_add_mul:
  "(\<And>x. x \<in> set xs \<Longrightarrow> g x = Num (k * g' x))
   \<Longrightarrow> foldl (\<lambda>acc x. js_add acc (js_mul (g x) (Num h))) (Num a) xs
       = Num (a + k * (sum_list (map g' xs) * h))"
proof (induction xs arbitrary: a)
  case Nil
  then show ?case by simp
next
  case (Cons x xs)
  then show ?case by (simp add: algebra_simps)
qed

text \<open>
  Under a scaled catalog the cost of equipment and the cost of maintenance of a block
  are the factor times their values at factor 1, which are not negative.
\<close>

lemma equipment_costs_scaled:
  assumes "sound_config cfg" and "sound_block cfg block"
    and "\<forall>item \<in> set (items (equipmentCatalog cfg)). 0 < baseCost item"
  shows "\<exists>e1 m1. 0 \<le> e1 \<and> 0 \<le> m1 \<and>
           (\<forall>k. calculateEquipmentCost (scale_equipment cfg k) block = Inr (Num (k * e1))
              \<and> calculateMaintenanceCost (scale_equipment cfg k) block = Inr (Num (k * m1)))"
proof -
  obtain h where h: "0 \<le> h" "estimateMiningHours cfg block = Inr (Num h)"
    using estimateMiningHours_sound [OF assms(1,2)] by blast
  let ?items = "items (equipmentCatalog cfg)"
  let ?scaled = "\<lambda>k item. equipment_rate (scale_equipment cfg k)
                     (item\<lparr>baseCost := baseCost item * k\<rparr>)"
  have ex: "\<forall>item \<in> set ?items. \<exists>c. \<exists>ma. 0 \<le> c \<and> 0 \<le> ma \<and>
           (\<forall>k. costPerHour (?scaled k item) = Num (k * c)
              \<and> maintenancePerHour (?scaled k item) = Num (k * ma))"
  proof
    fix item
    assume "item \<in> set ?items"
    then show "\<exists>c. \<exists>ma. 0 \<le> c \<and> 0 \<le> ma \<and>
           (\<forall>k. costPerHour (?scaled k item) = Num (k * c)
              \<and> maintenancePerHour (?scaled k item) = Num (k * ma))"
      using equipment_rate_scaled [OF assms(1), of item] assms(3) by simp
  qed
  obtain C where ex2: "\<forall>item \<in> set ?items. \<exists>ma. 0 \<le> C item \<and> 0 \<le> ma \<and>
           (\<forall>k. costPerHour (?scaled k item) = Num (k * C item)
              \<and> maintenancePerHour (?scaled k item) = Num (k * ma))"
    using bchoice [OF ex] ..
  obtain MA where cm: "\<forall>item \<in> set ?items. 0 \<le> C item \<and> 0 \<le> MA item \<and>
           (\<forall>k. costPerHour (?scaled k item) = Num (k * C item)
              \<and> maintenancePerHour (?scaled k item) = Num (k * MA item))"
    using bchoice [OF ex2] ..
  define e1 where "e1 = sum_list (map C ?items) * h"
  define m1 where "m1 = sum_list (map MA ?items) * h"
  have e: "calculateEquipmentCost (scale_equipment cfg k) block = Inr (Num (k * e1))" for k
  proof -
    have "foldl (\<lambda>acc item. js_add acc (js_mul (costPerHour (?scaled k item)) (Num h)))
            (Num 0) ?items
          = Num (0 + k * (sum_list (map C ?items) * h))"
      by (rule foldl_js_add_mul) (simp add: cm)
    then show ?thesis
      by (simp add: calculateEquipmentCost_def calculateEquipmentRates_def h foldl_map e1_def)
  qed
  have m: "calculateMaintenanceCost (scale_equipment cfg k) block = Inr (Num (k * m1))" for k
  proof -
    have "foldl (\<lambda>acc item. js_add acc (js_mul (maintenancePerHour (?scaled k item)) (Num h)))
            (Num 0) ?items
          = Num (0 + k * (sum_list (map MA ?items) * h))"
      by (rule foldl_js_add_mul) (simp add: cm)
    then show ?thesis
      by (simp add: calculateMaintenanceCost_def calculateEquipmentRates_def h foldl_map m1_def)
  qed
  have "0 \<le> sum_list (map C ?items)" "0 \<le> sum_list (map MA ?items)"
    using cm by (auto intro!: sum_list_nonneg)
  then have "0 \<le> e1" "0 \<le> m1"
    using h(1) by (simp_all add: e1_def m1_def)
  with e m show ?thesis by blast
qed

lemma power_or_zero_finite:
  "power_or_zero item = Num (case powerKW item of None \<Rightarrow> 0 | Some p \<Rightarrow> p)"
  by (simp add: power_or_zero_def js_or_def split: option.split)

lemma calculateEnergyCost_scaled:
  assumes "sound_config cfg" and "sound_block cfg block"
  shows "\<exists>en. \<forall>k. calculateEnergyCost (scale_equipment cfg k) block = Inr (Num en)"
proof -
  obtain h where h: "estimateMiningHours cfg block = Inr (Num h)"
    using estimateMiningHours_sound [OF assms] by blast
  let ?items = "items (equipmentCatalog cfg)"
  let ?pw = "\<lambda>item. case powerKW item of None \<Rightarrow> 0 | Some p \<Rightarrow> p"
  have "foldl (\<lambda>acc item. js_add acc (power_or_zero (item\<lparr>baseCost := baseCost item * k\<rparr>)))
          (Num 0) ?items = Num (0 + sum_list (map ?pw ?items))" for k
    by (rule foldl_js_add_finite) (simp add: power_or_zero_finite)
  then have "calculateEnergyCost (scale_equipment cfg k) block
               = Inr (Num (sum_list (map ?pw ?items) * h * 0.12))" for k
    by (simp add: calculateEnergyCost_def h foldl_map Let_def)
  then show ?thesis by blast
qed

lemma is_finite_Num: "is_finite x \<Longrightarrow> \<exists>v. x = Num v"
  by (cases x) simp_all

lemma calculateConsumablesCost_finite: "\<exists>c. calculateConsumablesCost block = Num c"
proof -
  have "is_finite (calculateConsumablesCost block)"
    by (simp add: calculateConsumablesCost_def Let_def)
  then show ?thesis
    by (rule is_finite_Num)
qed

lemma capex_scaled:
  assumes "0 < tonnage block"
  shows "calculateCAPEXAllocation (scale_equipment cfg k) block
           = \<lparr>equipmentDepreciation =
                Num (k * (sum_list (map baseCost (items (equipmentCatalog cfg))) / 1000)),
              infrastructureAllocation = Num (tonnage block),
              CapexComponent.total =
                Num (tonnage block
                     + k * (sum_list (map baseCost (items (equipmentCatalog cfg))) / 1000))\<rparr>"
proof -
  let ?items = "items (equipmentCatalog cfg)"
  have "foldl (\<lambda>acc item. js_add acc (Num (baseCost item * k))) (Num 0) ?items
          = Num (0 + sum_list (map (\<lambda>item. baseCost item * k) ?items))"
    by (rule foldl_js_add_finite) simp
  moreover have "sum_list (map (\<lambda>item. baseCost item * k) ?items)
                   = k * sum_list (map baseCost ?items)"
    unfolding sum_list_mult_const by (rule mult.commute)
  ultimately show ?thesis
    using assms by (simp add: calculateCAPEXAllocation_def Let_def foldl_map)
qed

text \<open>
  The OPEX total and the CAPEX total of a sound block are finite, and under a scaled
  catalog each is a constant plus the factor times a slope; the slope of the OPEX
  total is not negative, that of the CAPEX total is the catalog's capital over 1000.
\<close>

lemma block_totals_scaled:
  assumes "sound_config cfg" and "sound_block cfg block"
    and "\<forall>item \<in> set (items (equipmentCatalog cfg)). 0 < baseCost item"
  shows "\<exists>o0 o1. 0 \<le> o1 \<and>
           (\<forall>k. \<exists>r. calculateBlockCost P (scale_equipment cfg k) now block = Inr r
              \<and> OpexComponent.total (opexComponent r) = Num (o0 + k * o1)
              \<and> CapexComponent.total (capexComponent r)
                  = Num (tonnage block
                         + k * (sum_list (map baseCost (items (equipmentCatalog cfg))) / 1000)))"
proof -
  obtain l where l: "calculateLaborCost cfg block = Inr (Num l)"
    using calculateLaborCost_sound [OF assms(1,2)] by blast
  obtain e1 m1 where em: "0 \<le> e1" "0 \<le> m1"
    and e: "\<And>k. calculateEquipmentCost (scale_equipment cfg k) block = Inr (Num (k * e1))"
    and m: "\<And>k. calculateMaintenanceCost (scale_equipment cfg k) block = Inr (Num (k * m1))"
    using equipment_costs_scaled [OF assms] by blast
  obtain en where en: "\<And>k. calculateEnergyCost (scale_equipment cfg k) block = Inr (Num en)"
    using calculateEnergyCost_scaled [OF assms(1,2)] by blast
  obtain c where c: "calculateConsumablesCost block = Num c"
    using calculateConsumablesCost_finite by blast
  have t: "0 < tonnage block"
    using assms(2) by (simp add: sound_block_def)
  define o0 where "o0 = l + c + en + l * 0.15"
  define o1 where "o1 = m1 + e1 * 0.15"
  have "0 \<le> o1"
    using em by (simp add: o1_def)
  moreover have "\<exists>r. calculateBlockCost P (scale_equipment cfg k) now block = Inr r
              \<and> OpexComponent.total (opexComponent r) = Num (o0 + k * o1)
              \<and> CapexComponent.total (capexComponent r)
                  = Num (tonnage block
                         + k * (sum_list (map baseCost (items (equipmentCatalog cfg))) / 1000))" for k
  proof -
    have arith: "l + c + en + k * m1 + (l + k * e1) * 0.15 = o0 + k * o1"
      by (simp add: o0_def o1_def field_simps)
    have "\<exists>r. calculateBlockCost P (scale_equipment cfg k) now block = Inr r
              \<and> OpexComponent.total (opexComponent r)
                  = Num (l + c + en + k * m1 + (l + k * e1) * 0.15)
              \<and> CapexComponent.total (capexComponent r)
                  = Num (tonnage block
                         + k * (sum_list (map baseCost (items (equipmentCatalog cfg))) / 1000))"
      by (simp add: calculateBlockCost_def calculateOverhead_def l e m en c capex_scaled [OF t]
        Let_def split: prod.split)
    then show ?thesis
      unfolding arith .
  qed
  ultimately show ?thesis by blast
qed

subsection \<open>Cash flows of the base case and of the variation\<close>

lemma sum_list_pos:
  fixes f :: "'a \<Rightarrow> real"
  assumes "xs \<noteq> []" and "\<forall>x \<in> set xs. 0 < f x"
  shows "0 < sum_list (map f xs)"
proof -
  have "0 \<le> sum_list (map f ys)" if "\<forall>x \<in> set ys. 0 < f x" for ys
    using that by (intro sum_list_nonneg) (auto simp: less_imp_le)
  then show ?thesis
    using assms by (cases xs) (auto intro: add_pos_nonneg)
qed

lemma block_compare:
  assumes "sound_config cfg" and "sound_block cfg block"
    and "\<forall>item \<in> set (items (equipmentCatalog cfg)). 0 < baseCost item"
    and "items (equipmentCatalog cfg) \<noteq> []"
  shows "\<exists>r r'. calculateBlockCost P cfg now block = Inr r
           \<and> calculateBlockCost P (scale_equipment cfg (11 / 10)) now block = Inr r'
           \<and> cheaper r r'"
proof -
  let ?cap = "sum_list (map baseCost (items (equipmentCatalog cfg)))"
  obtain o0 o1 where o1: "0 \<le> o1"
    and tot: "\<And>k. \<exists>r. calculateBlockCost P (scale_equipment cfg k) now block = Inr r
              \<and> OpexComponent.total (opexComponent r) = Num (o0 + k * o1)
              \<and> CapexComponent.total (capexComponent r)
                  = Num (tonnage block + k * (?cap / 1000))"
    using block_totals_scaled [OF assms(1-3), of P now] by blast
  have cap: "0 < ?cap"
    using assms(3,4) by (intro sum_list_pos) simp_all
  obtain r where r: "calculateBlockCost P (scale_equipment cfg 1) now block = Inr r"
    "OpexComponent.total (opexComponent r) = Num (o0 + 1 * o1)"
    "CapexComponent.total (capexComponent r) = Num (tonnage block + 1 * (?cap / 1000))"
    using tot [of 1] by blast
  obtain r' where r': "calculateBlockCost P (scale_equipment cfg (11 / 10)) now block = Inr r'"
    "OpexComponent.total (opexComponent r') = Num (o0 + 11 / 10 * o1)"
    "CapexComponent.total (capexComponent r') = Num (tonnage block + 11 / 10 * (?cap / 1000))"
    using tot [of "11 / 10"] by blast
  have "cheaper r r'"
    unfolding cheaper_def using r(2,3) r'(2,3) o1 cap
    by (intro exI [of _ "tonnage block + 1 * (?cap / 1000)"] exI [of _ "o0 + 1 * o1"]
          exI [of _ "tonnage block + 11 / 10 * (?cap / 1000)"] exI [of _ "o0 + 11 / 10 * o1"])
       (simp add: mult_right_mono)
  with r(1) r'(1) show ?thesis
    by (simp add: scale_equipment_one)
qed

lemma costs_rel_update:
  "costs_rel bc bc' \<Longrightarrow> cheaper r r' \<Longrightarrow> costs_rel (bc(k \<mapsto> r)) (bc'(k \<mapsto> r'))"
  by (simp add: costs_rel_def)

lemma block_costs_compare:
  assumes "sound_config cfg"
    and "\<forall>item \<in> set (items (equipmentCatalog cfg)). 0 < baseCost item"
    and "items (equipmentCatalog cfg) \<noteq> []"
  shows "\<forall>b \<in> set blocks. sound_block cfg b \<Longrightarrow> costs_rel m m' \<Longrightarrow>
         \<exists>bc bc'. block_costs_loop P cfg now blocks m = Inr bc
           \<and> block_costs_loop P (scale_equipment cfg (11 / 10)) now blocks m' = Inr bc'
           \<and> costs_rel bc bc'
           \<and> (\<forall>k. bc k \<noteq> None \<longleftrightarrow>
                  m k \<noteq> None \<or> k \<in> BlockCharacteristics.blockId ` set blocks)"
proof (induction blocks arbitrary: m m')
  case Nil
  then show ?case by simp
next
  case (Cons b bs)
  then have "sound_block cfg b" by simp
  then obtain r r' where r: "calculateBlockCost P cfg now b = Inr r"
    "calculateBlockCost P (scale_equipment cfg (11 / 10)) now b = Inr r'" "cheaper r r'"
    using block_compare [OF assms(1) _ assms(2,3)] by blast
  have "costs_rel (m(BlockCharacteristics.blockId b \<mapsto> r))
          (m'(BlockCharacteristics.blockId b \<mapsto> r'))"
    using Cons.prems(2) r(3) by (rule costs_rel_update)
  moreover have "\<forall>b \<in> set bs. sound_block cfg b"
    using Cons.prems(1) by simp
  ultimately obtain bc bc' where
    "block_costs_loop P cfg now bs (m(BlockCharacteristics.blockId b \<mapsto> r)) = Inr bc"
    "block_costs_loop P (scale_equipment cfg (11 / 10)) now bs
       (m'(BlockCharacteristics.blockId b \<mapsto> r')) = Inr bc'"
    "costs_rel bc bc'"
    "\<forall>k. bc k \<noteq> None \<longleftrightarrow>
       (m(BlockCharacteristics.blockId b \<mapsto> r)) k \<noteq> None
       \<or> k \<in> BlockCharacteristics.blockId ` set bs"
    using Cons.IH by blast
  then show ?case
    using r(1,2) by (intro exI [of _ bc] exI [of _ bc']) auto
qed

lemma find_blockId:
  "find (\<lambda>b. BlockCharacteristics.blockId b = k) blocks \<noteq> None
     \<longleftrightarrow> k \<in> BlockCharacteristics.blockId ` set blocks"
  by (auto simp: find_None_iff)

lemma costs_rel_None: "costs_rel bc bc' \<Longrightarrow> bc k = None \<Longrightarrow> bc' k = None"
  unfolding costs_rel_def by (drule spec [of _ k]) (cases "bc' k"; simp)

lemma costs_rel_Some:
  "costs_rel bc bc' \<Longrightarrow> bc k = Some r \<Longrightarrow> \<exists>r'. bc' k = Some r' \<and> cheaper r r'"
  unfolding costs_rel_def by (drule spec [of _ k]) (cases "bc' k"; simp)

lemma period_sums_compare:
  assumes rel: "costs_rel bc bc'"
    and dom: "\<forall>k. bc k \<noteq> None \<longleftrightarrow> k \<in> BlockCharacteristics.blockId ` set blocks"
  shows "c \<le> c' \<Longrightarrow> p \<le> p' \<Longrightarrow>
         \<exists>cx px tx cy py ty.
           period_sums bc blocks ss (Num c, Num p, Num t) = (Num cx, Num px, Num tx)
         \<and> period_sums bc' blocks ss (Num c', Num p', Num t') = (Num cy, Num py, Num ty)
         \<and> cx \<le> cy \<and> px \<le> py
         \<and> (c < c' \<or> (\<exists>s \<in> set ss. BlockSchedule.blockId s
                            \<in> BlockCharacteristics.blockId ` set blocks) \<longrightarrow> cx < cy)"
proof (induction ss arbitrary: c p t c' p' t')
  case Nil
  then show ?case by simp
next
  case (Cons s ss)
  let ?k = "BlockSchedule.blockId s"
  show ?case
  proof (cases "?k \<in> BlockCharacteristics.blockId ` set blocks")
    case False
    then have "bc ?k = None"
      using dom by (cases "bc ?k") auto
    moreover from this have "bc' ?k = None"
      using rel by (rule costs_rel_None [rotated])
    ultimately have "bc ?k = None" "bc' ?k = None"
      by simp_all
    then show ?thesis
      using Cons.IH [OF Cons.prems, of t t'] False by simp
  next
    case True
    then obtain r where r: "bc ?k = Some r"
      using dom by auto
    then obtain r' where r': "bc' ?k = Some r'" and ch: "cheaper r r'"
      using costs_rel_Some [OF rel] by blast
    obtain b where b: "find (\<lambda>b. BlockCharacteristics.blockId b = ?k) blocks = Some b"
      using True find_blockId [of ?k blocks] by auto
    obtain cx ox cy oy where tot:
      "CapexComponent.total (capexComponent r) = Num cx"
      "OpexComponent.total (opexComponent r) = Num ox"
      "CapexComponent.total (capexComponent r') = Num cy"
      "OpexComponent.total (opexComponent r') = Num oy" "cx < cy" "ox \<le> oy"
      using ch by (auto simp: cheaper_def)
    have "c + cx < c' + cy" "p + ox \<le> p' + oy"
      using Cons.prems tot(5,6) by simp_all
    then show ?thesis
      using Cons.IH [of "c + cx" "c' + cy" "p + ox" "p' + oy" "t + tonnage b" "t' + tonnage b"]
      by (simp add: r r' b tot) (meson less_imp_le)
  qed
qed

lemma period_cashflow_compare:
  assumes rel: "costs_rel bc bc'"
    and dom: "\<forall>k. bc k \<noteq> None \<longleftrightarrow> k \<in> BlockCharacteristics.blockId ` set blocks"
  shows "net_le (period_cashflow bc blocks schedule y m) (period_cashflow bc' blocks schedule y m)"
    and "\<exists>s \<in> set schedule. BlockSchedule.period s = period_name y m
           \<and> BlockSchedule.blockId s \<in> BlockCharacteristics.blockId ` set blocks
         \<Longrightarrow> net_less (period_cashflow bc blocks schedule y m)
               (period_cashflow bc' blocks schedule y m)"
proof -
  let ?ss = "filter (\<lambda>s. BlockSchedule.period s = period_name y m) schedule"
  obtain cx px tx cy py ty where sums:
    "period_sums bc blocks ?ss (Num 0, Num 0, Num 0) = (Num cx, Num px, Num tx)"
    "period_sums bc' blocks ?ss (Num 0, Num 0, Num 0) = (Num cy, Num py, Num ty)"
    "cx \<le> cy" "px \<le> py"
    "(0::real) < 0 \<or> (\<exists>s \<in> set ?ss. BlockSchedule.blockId s
                            \<in> BlockCharacteristics.blockId ` set blocks) \<longrightarrow> cx < cy"
    using period_sums_compare [OF rel dom, of 0 0 0 0 ?ss 0 0] by auto
  show "net_le (period_cashflow bc blocks schedule y m) (period_cashflow bc' blocks schedule y m)"
    using sums(1-4) by (simp add: net_le_def period_cashflow_def Let_def)
  show "net_less (period_cashflow bc blocks schedule y m)
               (period_cashflow bc' blocks schedule y m)"
    if "\<exists>s \<in> set schedule. BlockSchedule.period s = period_name y m
           \<and> BlockSchedule.blockId s \<in> BlockCharacteristics.blockId ` set blocks"
  proof -
    from that have "cx < cy"
      using sums(5) by auto
    then show ?thesis
      using sums(1,2,4) by (simp add: net_less_def period_cashflow_def Let_def)
  qed
qed

lemma raw_cashflows_as_map:
  "raw_cashflows cfg bc blocks schedule
     = map (\<lambda>(y, m). period_cashflow bc blocks schedule y m) (horizon cfg)"
  by (simp add: raw_cashflows_def horizon_def map_concat comp_def)

lemma horizon_scaled [simp]: "horizon (scale_equipment cfg k) = horizon cfg"
  by (simp add: horizon_def)

lemma net_le_accumulate:
  assumes "list_all2 net_le cfs cfs'"
  shows "list_all2 net_le (accumulate c cfs) (accumulate c' cfs')"
  using assms
  by (auto simp: list_all2_conv_all_nth net_le_def accumulate_net)

lemma net_less_accumulate:
  assumes "length cfs = length cfs'" and "k < length cfs" and "net_less (cfs ! k) (cfs' ! k)"
  shows "net_less (accumulate c cfs ! k) (accumulate c' cfs' ! k)"
  using assms by (simp add: net_less_def accumulate_net)

lemma npv_loop_compare:
  assumes "0 < 1 + d"
  shows "list_all2 net_le cfs cfs' \<Longrightarrow> a' \<le> a \<Longrightarrow>
         \<exists>v v'. npv_loop (Num d) i cfs (Num a) = Num v
           \<and> npv_loop (Num d) i cfs' (Num a') = Num v' \<and> v' \<le> v
           \<and> (a' < a \<or> (\<exists>k < length cfs. net_less (cfs ! k) (cfs' ! k)) \<longrightarrow> v' < v)"
proof (induction cfs cfs' arbitrary: i a a' rule: list_all2_induct)
  case Nil
  then show ?case by simp
next
  case (Cons cf cfs cf' cfs')
  obtain n n' where n: "netCashflow cf = Num n" "netCashflow cf' = Num n'" "n' \<le> n"
    using Cons.hyps(1) by (auto simp: net_le_def)
  define f where "f = (1 + d) powr (real i / 12)"
  have f: "0 < f"
    using assms by (simp add: f_def)
  have pw: "js_pow (Num (1 + d)) (Num (real i / 12)) = Num f"
    using assms by (simp add: f_def)
  have le: "a' + n' / f \<le> a + n / f"
    using Cons.prems n(3) f by (simp add: add_mono divide_right_mono)
  obtain v v' where v: "npv_loop (Num d) (Suc i) cfs (Num (a + n / f)) = Num v"
    "npv_loop (Num d) (Suc i) cfs' (Num (a' + n' / f)) = Num v'" "v' \<le> v"
    "a' + n' / f < a + n / f \<or> (\<exists>k < length cfs. net_less (cfs ! k) (cfs' ! k)) \<longrightarrow> v' < v"
    using Cons.IH [OF le, of "Suc i"] by blast
  have step: "npv_loop (Num d) i (cf # cfs) (Num a) = Num v"
    "npv_loop (Num d) i (cf' # cfs') (Num a') = Num v'"
    using v(1,2) f by (simp_all add: Let_def pw n del: js_pow.simps)
  have "v' < v"
    if "a' < a \<or> (\<exists>k < length (cf # cfs). net_less ((cf # cfs) ! k) ((cf' # cfs') ! k))"
  proof -
    from that consider "a' < a" | "net_less cf cf'"
      | "\<exists>k < length cfs. net_less (cfs ! k) (cfs' ! k)"
      by (fastforce simp: less_Suc_eq_0_disj)
    then show ?thesis
    proof cases
      case 1
      then have "a' + n' / f < a + n / f"
        using n(3) f by (simp add: add_less_le_mono divide_right_mono)
      then show ?thesis using v(4) by simp
    next
      case 2
      then have "n' < n"
        using n(1,2) by (auto simp: net_less_def)
      then have "a' + n' / f < a + n / f"
        using Cons.prems f by (simp add: add_le_less_mono divide_strict_right_mono)
      then show ?thesis using v(4) by simp
    next
      case 3
      then show ?thesis using v(4) by simp
    qed
  qed
  with step v(3) show ?case by blast
qed

lemma generateCashflow_compare:
  assumes "sound_config cfg" and "\<forall>b \<in> set blocks. sound_block cfg b"
    and "\<forall>item \<in> set (items (equipmentCatalog cfg)). 0 < baseCost item"
    and "items (equipmentCatalog cfg) \<noteq> []"
    and "\<exists>s \<in> set schedule. effective_entry cfg blocks s"
  shows "\<exists>cfs cfs'. generateCashflow P cfg now blocks schedule = Inr cfs
           \<and> generateCashflow P (scale_equipment cfg (11 / 10)) now blocks schedule = Inr cfs'
           \<and> list_all2 net_le cfs cfs'
           \<and> (\<exists>k < length cfs. net_less (cfs ! k) (cfs' ! k))"
proof -
  have "costs_rel Map.empty Map.empty"
    by (simp add: costs_rel_def)
  then obtain bc bc' where bc: "block_costs_loop P cfg now blocks Map.empty = Inr bc"
    "block_costs_loop P (scale_equipment cfg (11 / 10)) now blocks Map.empty = Inr bc'"
    and rel: "costs_rel bc bc'"
    and dom: "\<forall>k. bc k \<noteq> None \<longleftrightarrow> k \<in> BlockCharacteristics.blockId ` set blocks"
    using block_costs_compare [OF assms(1,3,4,2), of Map.empty Map.empty P now] by auto
  let ?raw = "raw_cashflows cfg bc blocks schedule"
  let ?raw' = "raw_cashflows (scale_equipment cfg (11 / 10)) bc' blocks schedule"
  have len: "length ?raw = length (horizon cfg)" "length ?raw' = length (horizon cfg)"
    by (simp_all add: raw_cashflows_as_map)
  have nth: "?raw ! k = period_cashflow bc blocks schedule (fst (horizon cfg ! k)) (snd (horizon cfg ! k))"
    "?raw' ! k = period_cashflow bc' blocks schedule (fst (horizon cfg ! k)) (snd (horizon cfg ! k))"
    if "k < length (horizon cfg)" for k
    using that by (simp_all add: raw_cashflows_as_map case_prod_beta)
  have le: "list_all2 net_le ?raw ?raw'"
    using len nth period_cashflow_compare(1) [OF rel dom]
    by (simp add: list_all2_conv_all_nth)
  obtain s y m where s: "s \<in> set schedule"
    "BlockSchedule.blockId s \<in> BlockCharacteristics.blockId ` set blocks"
    "(y, m) \<in> set (horizon cfg)" "BlockSchedule.period s = period_name y m"
    using assms(5) by (auto simp: effective_entry_def)
  then obtain k where k: "k < length (horizon cfg)" "horizon cfg ! k = (y, m)"
    by (auto simp: in_set_conv_nth)
  have "net_less (period_cashflow bc blocks schedule y m) (period_cashflow bc' blocks schedule y m)"
    using s(1,2,4) by (intro period_cashflow_compare(2) [OF rel dom]) blast
  then have less: "net_less (?raw ! k) (?raw' ! k)"
    using nth [OF k(1)] k(2) by simp
  have "generateCashflow P cfg now blocks schedule = Inr (accumulate (Num 0) ?raw)"
    "generateCashflow P (scale_equipment cfg (11 / 10)) now blocks schedule
       = Inr (accumulate (Num 0) ?raw')"
    by (simp_all add: generateCashflow_def bc raw_cashflows_def Let_def)
  moreover have "list_all2 net_le (accumulate (Num 0) ?raw) (accumulate (Num 0) ?raw')"
    using le by (rule net_le_accumulate)
  moreover have "net_less (accumulate (Num 0) ?raw ! k) (accumulate (Num 0) ?raw' ! k)"
    using len k(1) less by (intro net_less_accumulate) simp_all
  ultimately show ?thesis
    using k(1) len by (intro exI conjI) auto
qed

lemma calculateBlocks_isl:
  "isl (calculateBlocks P cfg now blocks)
     \<longleftrightarrow> (\<exists>b \<in> set blocks. applicable_penRate cfg b = None)"
proof (induction blocks)
  case Nil
  then show ?case by simp
next
  case (Cons b bs)
  show ?case
  proof (cases "calculateBlockCost P cfg now b")
    case (Inl e)
    then show ?thesis
      using calculateBlockCost_isl [of P cfg now b] by simp
  next
    case (Inr c)
    then show ?thesis
      using calculateBlockCost_isl [of P cfg now b] Cons.IH
      by (cases "calculateBlocks P cfg now bs") auto
  qed
qed

lemma projection_npv_value:
  assumes "\<forall>b \<in> set blocks. applicable_penRate cfg b \<noteq> None"
    and "generateCashflow P cfg now blocks schedule = Inr cfs"
  shows "projection_npv P cfg now blocks schedule
           = Some (npv_loop (Num (discountRate (aggregatorSettings cfg))) 0 cfs (Num 0))"
proof -
  have "\<not> isl (calculateBlocks P cfg now blocks)"
    using assms(1) by (simp add: calculateBlocks_isl)
  then obtain bcs where "calculateBlocks P cfg now blocks = Inr bcs"
    by (cases "calculateBlocks P cfg now blocks") auto
  then show ?thesis
    using assms(2)
    by (simp add: projection_npv_def runFullProjection_def generateSummary_def Let_def)
qed

lemma applyVariation_equipment_cost:
  "applyVariation cfg ''equipment_cost'' 10 = scale_equipment cfg (11 / 10)"
  by (simp add: applyVariation_def scale_equipment_def)

lemma sensitivity_npv_value:
  "sensitivity_npv P cfg now blocks schedule ''equipment_cost'' 10
     = projection_npv P (scale_equipment cfg (11 / 10)) now blocks schedule"
  by (cases "runFullProjection P (scale_equipment cfg (11 / 10)) now blocks schedule")
     (auto simp: sensitivity_npv_def projection_npv_def applyVariation_equipment_cost Let_def
           split: prod.splits)

lemma sound_block_rate: "sound_block cfg b \<Longrightarrow> applicable_penRate cfg b \<noteq> None"
  by (simp add: sound_block_def)

text \<open>
  C9, as the code has it: the variation \<open>equipment_cost\<close> at +10 percent multiplies the
  base cost of every catalog item by 1.10 and changes no other field. If moreover the
  configuration is sound, every block is sound, the schedule is dominated by the cost
  of equipment, and some entry of the schedule names a block of the list in a period of
  the project horizon, then the NPV of the variation is strictly less than the NPV of
  the base case.
\<close>

theorem equipment_cost_variation:
  assumes "sound_config cfg" and "\<forall>b \<in> set blocks. sound_block cfg b"
    and "equipment_cost_dominated cfg blocks schedule"
    and "\<exists>s \<in> set schedule. effective_entry cfg blocks s"
  shows "applyVariation cfg ''equipment_cost'' 10
           = cfg\<lparr>equipmentCatalog :=
                  (equipmentCatalog cfg)
                    \<lparr>items := map (\<lambda>item. item\<lparr>baseCost := baseCost item * (11 / 10)\<rparr>)
                               (items (equipmentCatalog cfg))\<rparr>\<rparr>
       \<and> npv_less (sensitivity_npv P cfg now blocks schedule ''equipment_cost'' 10)
           (projection_npv P cfg now blocks schedule)"
proof -
  let ?cfg' = "scale_equipment cfg (11 / 10)"
  have pos: "\<forall>item \<in> set (items (equipmentCatalog cfg)). 0 < baseCost item"
    and ne: "items (equipmentCatalog cfg) \<noteq> []"
    using assms(3) by (simp_all add: equipment_cost_dominated_def)
  obtain cfs cfs' where cf: "generateCashflow P cfg now blocks schedule = Inr cfs"
    "generateCashflow P ?cfg' now blocks schedule = Inr cfs'"
    "list_all2 net_le cfs cfs'" "\<exists>k < length cfs. net_less (cfs ! k) (cfs' ! k)"
    using generateCashflow_compare [OF assms(1,2) pos ne assms(4)] by blast
  have rate: "0 < 1 + discountRate (aggregatorSettings cfg)"
    using assms(1) by (simp add: sound_config_def Let_def)
  obtain v v' where v:
    "npv_loop (Num (discountRate (aggregatorSettings cfg))) 0 cfs (Num 0) = Num v"
    "npv_loop (Num (discountRate (aggregatorSettings cfg))) 0 cfs' (Num 0) = Num v'"
    "v' < v"
    using npv_loop_compare [OF rate cf(3), of 0 0 0] cf(4) by auto
  have ok: "\<forall>b \<in> set blocks. applicable_penRate cfg b \<noteq> None"
    using assms(2) sound_block_rate by blast
  have "projection_npv P cfg now blocks schedule = Some (Num v)"
    using projection_npv_value [OF ok cf(1)] v(1) by simp
  moreover have "sensitivity_npv P cfg now blocks schedule ''equipment_cost'' 10 = Some (Num v')"
    using projection_npv_value [of blocks ?cfg' P now schedule cfs'] ok cf(2) v(2)
    by (simp add: sensitivity_npv_value)
  ultimately have "npv_less (sensitivity_npv P cfg now blocks schedule ''equipment_cost'' 10)
           (projection_npv P cfg now blocks schedule)"
    using v(3) by (simp add: npv_less_def)
  then show ?thesis
    by (simp add: applyVariation_def)
qed

lemma example_config_sound: "sound_config example_config"
  by (simp add: sound_config_def example_config_def)

lemma example_block_sound: "sound_block example_config example_block"
  by (simp add: sound_block_def example_block_rate) (simp add: example_block_def)

lemma march_2025: "period_name 2025 3 = ''2025-03''"
  by code_simp

lemma march_2025_in_horizon: "(2025, 3) \<in> set (horizon example_config)"
  by (simp add: horizon_def example_config_def upto.simps)

lemma example_entry_effective:
  "\<exists>s \<in> set example_schedule. effective_entry example_config [example_block] s"
proof -
  have "\<exists>(y, m) \<in> set (horizon example_config). ''2025-03'' = period_name y m"
    using march_2025 march_2025_in_horizon by (intro bexI [of _ "(2025, 3)"]) simp_all
  then show ?thesis
    by (simp add: example_schedule_def effective_entry_def example_block_def)
qed

lemma example_dominated: "equipment_cost_dominated example_config [example_block] example_schedule"
  by (simp add: equipment_cost_dominated_def example_schedule_def)
     (simp add: example_config_def example_block_def)

theorem equipment_cost_variation_witness:
  "sound_config example_config \<and> sound_block example_config example_block
   \<and> equipment_cost_dominated example_config [example_block] example_schedule
   \<and> effective_entry example_config [example_block] (example_schedule ! 0)
   \<and> map baseCost (items (equipmentCatalog
        (applyVariation example_config ''equipment_cost'' 10))) = [1100000]
   \<and> npv_less (sensitivity_npv known_dates example_config sample_now [example_block]
          example_schedule ''equipment_cost'' 10)
        (projection_npv known_dates example_config sample_now [example_block] example_schedule)"
proof -
  have "\<forall>b \<in> set [example_block]. sound_block example_config b"
    using example_block_sound by simp
  from equipment_cost_variation [OF example_config_sound this example_dominated
      example_entry_effective, of known_dates sample_now]
  show ?thesis
    using example_config_sound example_block_sound example_dominated example_entry_effective
    by (simp add: example_schedule_def) (simp add: example_config_def)
qed

subsection \<open>A block without tonnage in the schedule\<close>

lemma js_lt_NaN [simp]: "js_lt a NaN = False"
  by (cases a) simp_all

lemma npv_loop_NaN: "npv_loop rate i cfs NaN = NaN"
  by (induction cfs arbitrary: i) (simp_all add: Let_def)

lemma npv_loop_NaN_net:
  "cf \<in> set cfs \<Longrightarrow> netCashflow cf = NaN \<Longrightarrow> npv_loop rate i cfs a = NaN"
proof (induction cfs arbitrary: i a)
  case Nil
  then show ?case by simp
next
  case (Cons x xs)
  show ?case
  proof (cases "netCashflow x = NaN")
    case True
    then show ?thesis
      by (simp add: Let_def npv_loop_NaN del: js_pow.simps)
  next
    case False
    then have "cf \<in> set xs"
      using Cons.prems by auto
    then show ?thesis
      using Cons.IH Cons.prems(2) by (simp add: Let_def del: js_pow.simps)
  qed
qed

lemma period_sums_NaN: "fst (period_sums bc blocks ss (NaN, p, t)) = NaN"
  by (induction ss arbitrary: p t) (simp_all split: option.splits)

lemma zero_tonnage_capex_total:
  "tonnage block = 0 \<Longrightarrow> CapexComponent.total (calculateCAPEXAllocation cfg block) = NaN"
  by (simp add: calculateCAPEXAllocation_def Let_def)

lemma capexComponent_result:
  assumes "calculateBlockCost P cfg now block = Inr r"
  shows "capexComponent r = calculateCAPEXAllocation cfg block"
proof -
  have "applicable_penRate cfg block \<noteq> None"
    using assms calculateBlockCost_isl [of P cfg now block] by auto
  then obtain l e where "calculateLaborCost cfg block = Inr l"
    and "estimateMiningHours cfg block = Inr e"
    using costed_parts [of cfg block] by auto
  then show ?thesis
    using assms by (auto simp: block_cost_defs Let_def split: prod.splits)
qed

lemma zero_tonnage_projection:
  "projection_npv known_dates example_config sample_now [zero_tonnage_block] example_schedule
     = Some NaN"
proof -
  let ?cfg = example_config
  have rate: "\<forall>b \<in> set [zero_tonnage_block]. applicable_penRate ?cfg b \<noteq> None"
    using zero_tonnage_block_rate by simp
  then obtain r where r: "calculateBlockCost known_dates ?cfg sample_now zero_tonnage_block = Inr r"
    using calculateBlockCost_isl [of known_dates ?cfg sample_now zero_tonnage_block]
    by (cases "calculateBlockCost known_dates ?cfg sample_now zero_tonnage_block") auto
  have t: "tonnage zero_tonnage_block = 0"
    by (simp add: zero_tonnage_block_def)
  have cap: "CapexComponent.total (capexComponent r) = NaN"
    using capexComponent_result [OF r] zero_tonnage_capex_total [OF t] by simp
  define bc where "bc = [BlockCharacteristics.blockId zero_tonnage_block \<mapsto> r]"
  have id: "BlockCharacteristics.blockId zero_tonnage_block = ''B1''"
    by (simp add: zero_tonnage_block_def example_block_def)
  have loop: "block_costs_loop known_dates ?cfg sample_now [zero_tonnage_block] Map.empty = Inr bc"
    by (simp add: r bc_def)
  have "fst (period_sums bc [zero_tonnage_block] example_schedule (Num 0, Num 0, Num 0)) = NaN"
    using period_sums_NaN [of bc "[zero_tonnage_block]" "[]"]
    by (simp add: example_schedule_def bc_def id cap)
  then obtain p w where sums:
    "period_sums bc [zero_tonnage_block] example_schedule (Num 0, Num 0, Num 0) = (NaN, p, w)"
    by (cases "period_sums bc [zero_tonnage_block] example_schedule (Num 0, Num 0, Num 0)") auto
  have sel: "filter (\<lambda>s. BlockSchedule.period s = period_name 2025 3) example_schedule
               = example_schedule"
    by (simp add: march_2025 example_schedule_def)
  have "netCashflow (period_cashflow bc [zero_tonnage_block] example_schedule 2025 3) = NaN"
    unfolding period_cashflow_def Let_def sel sums by simp
  moreover have "period_cashflow bc [zero_tonnage_block] example_schedule 2025 3
      \<in> set (raw_cashflows ?cfg bc [zero_tonnage_block] example_schedule)"
    using march_2025_in_horizon by (force simp: raw_cashflows_as_map)
  ultimately obtain cf where cf: "cf \<in> set (raw_cashflows ?cfg bc [zero_tonnage_block] example_schedule)"
    "netCashflow cf = NaN"
    by blast
  let ?cfs = "accumulate (Num 0) (raw_cashflows ?cfg bc [zero_tonnage_block] example_schedule)"
  have "NaN \<in> set (map netCashflow ?cfs)"
    using cf by (force simp: accumulate_map_net)
  then obtain cf' where cf': "cf' \<in> set ?cfs" "netCashflow cf' = NaN"
    by auto
  have gen: "generateCashflow known_dates ?cfg sample_now [zero_tonnage_block] example_schedule
               = Inr ?cfs"
    unfolding generateCashflow_def loop raw_cashflows_def by (simp add: Let_def)
  show ?thesis
    using projection_npv_value [OF rate gen] npv_loop_NaN_net [OF cf'] by simp
qed

text \<open>
  C9, as stated, fails for a scheduled block of tonnage 0, the default of the block
  form: the schedule is dominated by the cost of equipment, the block has a positive
  strike length and width, yet the NPV of the base case is NaN, and the NPV of the
  variation is not less than it.
\<close>

theorem equipment_cost_variation_counterexample:
  "equipment_cost_dominated example_config [zero_tonnage_block] example_schedule
   \<and> projection_npv known_dates example_config sample_now [zero_tonnage_block] example_schedule
       = Some NaN
   \<and> \<not> npv_less (sensitivity_npv known_dates example_config sample_now [zero_tonnage_block]
            example_schedule ''equipment_cost'' 10)
          (projection_npv known_dates example_config sample_now [zero_tonnage_block]
            example_schedule)"
proof -
  have "equipment_cost_dominated example_config [zero_tonnage_block] example_schedule"
    by (simp add: equipment_cost_dominated_def example_schedule_def zero_tonnage_block_def)
       (simp add: example_config_def example_block_def)
  then show ?thesis
    by (simp add: zero_tonnage_projection npv_less_def split: option.splits)
qed

end
